theory Spec2Isabelle
  imports Complex_Main
begin

section \<open>Numbers, rounding and sorting\<close>

text \<open>
  The engine computes on JavaScript numbers. They are modelled as exact reals: the
  thresholds, bands and orderings verified below are statements about the arithmetic the
  code writes down, not about binary rounding, and the values NaN and Infinity are not
  part of the model. The single unguarded division of the engine (the deviation from a
  zero mean in \<open>detectAnomalies\<close>) is written out by cases where it occurs.

  \<open>Math.round(x)\<close> is the integer nearest to \<open>x\<close>, ties towards plus infinity;
  \<open>Math.round(x * 10) / 10\<close> is the rounding to one decimal used for every published
  percentage. The code rounds the double it has computed, the model rounds the exact value:
  where the exact value is a one-decimal tie the two can differ in the last digit (a
  revenue of 103 against 80 is 28.75 percent exactly and 28.749999999999996 as a double,
  published as 28.8 by the model and as 28.7 by the code). The comparisons with thresholds
  are made on the values before rounding, in the code and in the model.
\<close>

definition mathRound :: "real \<Rightarrow> real" where
  "mathRound x = of_int \<lfloor>x + 1 / 2\<rfloor>"

definition round1 :: "real \<Rightarrow> real" where
  "round1 x = mathRound (x * 10) / 10"

text \<open>
  \<open>Array.prototype.sort(cmp)\<close> is stable; \<open>a\<close> stays in front of \<open>b\<close> when
  \<open>cmp(a, b) \<le> 0\<close>. It is modelled by a stable insertion sort on the comparator.
\<close>

fun insertBy :: "('a \<Rightarrow> 'a \<Rightarrow> real) \<Rightarrow> 'a \<Rightarrow> 'a list \<Rightarrow> 'a list" where
  "insertBy cmp x [] = [x]"
| "insertBy cmp x (y # ys) = (if cmp x y \<le> 0 then x # y # ys else y # insertBy cmp x ys)"

definition sortBy :: "('a \<Rightarrow> 'a \<Rightarrow> real) \<Rightarrow> 'a list \<Rightarrow> 'a list" where
  "sortBy cmp xs = foldr (insertBy cmp) xs []"

section \<open>Data model (src/lib/types/index.ts)\<close>

text \<open>
  Field names are those of the TypeScript interfaces; the result records carry a one-letter
  prefix because several interfaces share the names \<open>metric\<close>, \<open>value\<close>, \<open>severity\<close>
  and \<open>description\<close>. Fields that are produced by number formatting
  (\<open>toLocaleString\<close>, template literals over numbers) or by the clock
  (\<open>Date.now()\<close>, \<open>toISOString()\<close>) are display text without influence on control
  flow and are left out: \<open>description\<close> of trends and anomalies, \<open>title\<close>,
  \<open>description\<close> and \<open>firstDetectedAt\<close> of issues, \<open>id\<close>, \<open>summary\<close>,
  \<open>evidence\<close> and \<open>generatedAt\<close> of insights. The optional fields
  \<open>previousAmount\<close> and \<open>percentChange\<close> of an expense category are never written
  or read by the code under study.
\<close>

record PeriodData =
  periodStart :: string
  periodEnd :: string
  label :: string

record ExpenseCategory =
  name :: string
  amount :: real

record ProfitAndLoss =
  period :: PeriodData
  totalRevenue :: real
  totalCogs :: real
  grossProfit :: real
  totalExpenses :: real
  netIncome :: real
  expenseCategories :: "ExpenseCategory list"

record CashPosition =
  currentBalance :: real
  previousBalance :: real
  asOfDate :: string

datatype Direction = Up | Down | Flat

datatype Level = High | Medium | Low

record VarianceResult =
  v_metric :: string
  v_currentValue :: real
  v_previousValue :: real
  v_absoluteChange :: real
  v_percentChange :: real
  v_direction :: Direction
  v_significance :: Level

datatype RatioTrend = Improving | Declining | Steady

record RatioResult =
  r_name :: string
  r_value :: real
  r_previousValue :: "real option"
  r_trend :: RatioTrend
  r_description :: string

datatype TrendDirection = Increasing | Decreasing | Stable | Volatile

record TrendResult =
  t_metric :: string
  t_direction :: TrendDirection
  t_periods :: nat
  t_magnitude :: real

record AnomalyResult =
  a_metric :: string
  a_value :: real
  a_expectedMin :: real
  a_expectedMax :: real
  a_severity :: Level

datatype IssueSeverity = Critical | Warning | Info

record Issue =
  i_id :: string
  i_severity :: IssueSeverity
  i_metric :: string
  i_currentValue :: real
  i_threshold :: "real option"
  i_periodsActive :: nat

section \<open>Period comparisons\<close>

text \<open>
  The body shared by the \<open>map\<close> callbacks of \<open>computeVariances\<close> and
  \<open>computeExpenseVariances\<close>; they differ in the threshold of \<open>high\<close> only
  (20 and 25).
\<close>

definition mkVariance :: "real \<Rightarrow> string \<Rightarrow> real \<Rightarrow> real \<Rightarrow> VarianceResult" where
  "mkVariance hi m cur prev =
     (let absoluteChange = cur - prev;
          percentChange = (if prev \<noteq> 0 then (absoluteChange / \<bar>prev\<bar>) * 100 else 0);
          absPercent = \<bar>percentChange\<bar>
      in \<lparr> v_metric = m,
           v_currentValue = cur,
           v_previousValue = prev,
           v_absoluteChange = absoluteChange,
           v_percentChange = round1 percentChange,
           v_direction = (if absoluteChange > 0 then Up else if absoluteChange < 0 then Down else Flat),
           v_significance = (if absPercent > hi then High else if absPercent > 10 then Medium else Low) \<rparr>)"

definition headlineMetrics :: "ProfitAndLoss \<Rightarrow> ProfitAndLoss \<Rightarrow> (string \<times> real \<times> real) list" where
  "headlineMetrics current previous =
     [ (''Revenue'', totalRevenue current, totalRevenue previous),
       (''Gross Profit'', grossProfit current, grossProfit previous),
       (''Total Expenses'', totalExpenses current, totalExpenses previous),
       (''Net Income'', netIncome current, netIncome previous),
       (''Cost of Goods Sold'', totalCogs current, totalCogs previous) ]"

definition computeVariances :: "ProfitAndLoss \<Rightarrow> ProfitAndLoss \<Rightarrow> VarianceResult list" where
  "computeVariances current previous =
     map (\<lambda>(m, cur, prev). mkVariance 20 m cur prev)
       (filter (\<lambda>(m, cur, prev). prev \<noteq> 0 \<or> cur \<noteq> 0) (headlineMetrics current previous))"

text \<open>
  The percentage of a variance before it is rounded for publication, as a function of the
  current and the previous value (the local \<open>percentChange\<close> of both callbacks).
\<close>

definition rawPercent :: "real \<Rightarrow> real \<Rightarrow> real" where
  "rawPercent cur prev = (if prev \<noteq> 0 then ((cur - prev) / \<bar>prev\<bar>) * 100 else 0)"

text \<open>
  A JavaScript \<open>Map\<close> built from entries keeps the position of the first occurrence of a
  key and the value of the last one; a \<open>Set\<close> built from a sequence keeps first
  occurrences in order. \<open>m.get(k) || 0\<close> is 0 for an absent key.
\<close>

fun mapSet :: "(string \<times> real) list \<Rightarrow> string \<Rightarrow> real \<Rightarrow> (string \<times> real) list" where
  "mapSet [] k v = [(k, v)]"
| "mapSet ((k', v') # m) k v = (if k' = k then (k, v) # m else (k', v') # mapSet m k v)"

definition newMap :: "(string \<times> real) list \<Rightarrow> (string \<times> real) list" where
  "newMap entries = foldl (\<lambda>m (k, v). mapSet m k v) [] entries"

definition mapKeys :: "(string \<times> real) list \<Rightarrow> string list" where
  "mapKeys m = map fst m"

definition getOrZero :: "(string \<times> real) list \<Rightarrow> string \<Rightarrow> real" where
  "getOrZero m k = (case map_of m k of None \<Rightarrow> 0 | Some v \<Rightarrow> v)"

definition newSet :: "string list \<Rightarrow> string list" where
  "newSet xs = foldl (\<lambda>s x. if x \<in> set s then s else s @ [x]) [] xs"

definition categoryMap :: "ProfitAndLoss \<Rightarrow> (string \<times> real) list" where
  "categoryMap p = newMap (map (\<lambda>c. (name c, amount c)) (expenseCategories p))"

definition categoryVariance :: "ProfitAndLoss \<Rightarrow> ProfitAndLoss \<Rightarrow> string \<Rightarrow> VarianceResult" where
  "categoryVariance current previous nm =
     mkVariance 25 nm (getOrZero (categoryMap current) nm) (getOrZero (categoryMap previous) nm)"

definition computeExpenseVariances :: "ProfitAndLoss \<Rightarrow> ProfitAndLoss \<Rightarrow> VarianceResult list" where
  "computeExpenseVariances current previous =
     (let allCategories = newSet (mapKeys (categoryMap current) @ mapKeys (categoryMap previous))
      in sortBy (\<lambda>a b. \<bar>v_absoluteChange b\<bar> - \<bar>v_absoluteChange a\<bar>)
           (filter (\<lambda>v. \<bar>v_percentChange v\<bar> \<ge> 5)
              (map (categoryVariance current previous) allCategories)))"

section \<open>Ratios\<close>

definition getTrend :: "real \<Rightarrow> real option \<Rightarrow> RatioTrend" where
  "getTrend current previous =
     (case previous of
        None \<Rightarrow> Steady
      | Some p \<Rightarrow>
          (let diff = current - p
           in if diff > 1 then Improving else if diff < - 1 then Declining else Steady))"

text \<open>
  \<open>prev ? Math.round(prev * 10) / 10 : undefined\<close>: the test is JavaScript truthiness, so
  a previous value that is \<open>undefined\<close> or \<open>0\<close> yields \<open>undefined\<close>.
\<close>

definition roundIfTruthy :: "real option \<Rightarrow> real option" where
  "roundIfTruthy prev =
     (case prev of None \<Rightarrow> None | Some p \<Rightarrow> (if p \<noteq> 0 then Some (round1 p) else None))"

text \<open>
  \<open>computeRatios\<close> pushes five blocks in order; each block is a definition here. The
  previous value of a ratio is \<open>undefined\<close> when there is no previous period or its
  revenue is not positive.
\<close>

definition grossMarginRatio :: "ProfitAndLoss \<Rightarrow> ProfitAndLoss option \<Rightarrow> RatioResult" where
  "grossMarginRatio current previous =
     (let grossMargin =
            (if totalRevenue current > 0 then (grossProfit current / totalRevenue current) * 100 else 0);
          prevGrossMargin =
            (case previous of
               None \<Rightarrow> None
             | Some p \<Rightarrow>
                 (if totalRevenue p > 0 then Some ((grossProfit p / totalRevenue p) * 100) else None))
      in \<lparr> r_name = ''Gross Margin'',
           r_value = round1 grossMargin,
           r_previousValue = roundIfTruthy prevGrossMargin,
           r_trend = getTrend grossMargin prevGrossMargin,
           r_description = ''How much you keep from each sale after direct costs'' \<rparr>)"

definition profitMarginRatio :: "ProfitAndLoss \<Rightarrow> ProfitAndLoss option \<Rightarrow> RatioResult" where
  "profitMarginRatio current previous =
     (let netMargin =
            (if totalRevenue current > 0 then (netIncome current / totalRevenue current) * 100 else 0);
          prevNetMargin =
            (case previous of
               None \<Rightarrow> None
             | Some p \<Rightarrow>
                 (if totalRevenue p > 0 then Some ((netIncome p / totalRevenue p) * 100) else None))
      in \<lparr> r_name = ''Profit Margin'',
           r_value = round1 netMargin,
           r_previousValue = roundIfTruthy prevNetMargin,
           r_trend = getTrend netMargin prevNetMargin,
           r_description = ''What'' @ [CHR 0x27] @ ''s left after all expenses, as a share of revenue'' \<rparr>)"

text \<open>Lower is better for the expense ratio; its trend is decided by a truthiness test on the previous value.\<close>

definition expenseRatioRatio :: "ProfitAndLoss \<Rightarrow> ProfitAndLoss option \<Rightarrow> RatioResult" where
  "expenseRatioRatio current previous =
     (let expenseRatio =
            (if totalRevenue current > 0 then (totalExpenses current / totalRevenue current) * 100 else 0);
          prevExpenseRatio =
            (case previous of
               None \<Rightarrow> None
             | Some p \<Rightarrow>
                 (if totalRevenue p > 0 then Some ((totalExpenses p / totalRevenue p) * 100) else None))
      in \<lparr> r_name = ''Expense Ratio'',
           r_value = round1 expenseRatio,
           r_previousValue = roundIfTruthy prevExpenseRatio,
           r_trend =
             (case prevExpenseRatio of
                None \<Rightarrow> Steady
              | Some pe \<Rightarrow>
                  (if pe \<noteq> 0
                   then (if expenseRatio < pe - 1 then Improving
                         else if expenseRatio > pe + 1 then Declining
                         else Steady)
                   else Steady)),
           r_description = ''Your regular costs as a share of revenue'' \<rparr>)"

definition revenueGrowthRatios :: "ProfitAndLoss \<Rightarrow> ProfitAndLoss option \<Rightarrow> RatioResult list" where
  "revenueGrowthRatios current previous =
     (case previous of
        None \<Rightarrow> []
      | Some p \<Rightarrow>
          (if totalRevenue p > 0
           then (let revenueGrowth =
                       ((totalRevenue current - totalRevenue p) / \<bar>totalRevenue p\<bar>) * 100
                 in [ \<lparr> r_name = ''Revenue Growth'',
                        r_value = round1 revenueGrowth,
                        r_previousValue = None,
                        r_trend = (if revenueGrowth > 2 then Improving
                                   else if revenueGrowth < - 2 then Declining
                                   else Steady),
                        r_description = ''How this month compares to last month'' \<rparr> ])
           else []))"

definition cashRunwayRatios :: "ProfitAndLoss \<Rightarrow> CashPosition option \<Rightarrow> RatioResult list" where
  "cashRunwayRatios current cashPosition =
     (case cashPosition of
        None \<Rightarrow> []
      | Some cp \<Rightarrow>
          (if totalExpenses current > 0
           then (let monthlyBurn = totalExpenses current - totalRevenue current;
                     runwayMonths =
                       (if monthlyBurn > 0 then currentBalance cp / monthlyBurn else 99)
                 in [ \<lparr> r_name = ''Cash Runway'',
                        r_value = round1 (min runwayMonths 99),
                        r_previousValue = None,
                        r_trend = (if runwayMonths < 3 then Declining
                                   else if runwayMonths < 6 then Steady
                                   else Improving),
                        r_description = ''Months your cash will last at current spending'' \<rparr> ])
           else []))"

definition computeRatios ::
  "ProfitAndLoss \<Rightarrow> ProfitAndLoss option \<Rightarrow> CashPosition option \<Rightarrow> RatioResult list" where
  "computeRatios current previous cashPosition =
     [ grossMarginRatio current previous,
       profitMarginRatio current previous,
       expenseRatioRatio current previous ]
     @ revenueGrowthRatios current previous
     @ cashRunwayRatios current cashPosition"

section \<open>Trend detection\<close>

text \<open>
  The loop of \<open>detectDirection\<close> over \<open>i = 1 .. length - 1\<close>, carrying the counters
  \<open>ups\<close> and \<open>downs\<close>.
\<close>

fun countSteps :: "real list \<Rightarrow> nat \<times> nat \<Rightarrow> nat \<times> nat" where
  "countSteps (a # b # rest) (ups, downs) =
     (let change = b - a;
          threshold = \<bar>a\<bar> * 0.03
      in countSteps (b # rest)
           (if change > threshold then (ups + 1, downs)
            else if change < - threshold then (ups, downs + 1)
            else (ups, downs)))"
| "countSteps rest acc = acc"

definition detectDirection :: "real list \<Rightarrow> TrendDirection" where
  "detectDirection values =
     (let (ups, downs) = countSteps values (0, 0);
          total = real_of_int (int (length values) - 1)
      in if real ups \<ge> total * 0.7 then Increasing
         else if real downs \<ge> total * 0.7 then Decreasing
         else if ups > 0 \<and> downs > 0 \<and> real (ups + downs) \<ge> total * 0.7 then Volatile
         else Stable)"

definition trendMetrics :: "(string \<times> (ProfitAndLoss \<Rightarrow> real)) list" where
  "trendMetrics =
     [ (''Revenue'', totalRevenue),
       (''Expenses'', totalExpenses),
       (''Profit'', netIncome),
       (''Gross Profit'', grossProfit) ]"

text \<open>One iteration of the \<open>for (const metric of metrics)\<close> loop; \<open>periods\<close> has at least two entries here.\<close>

definition trendOf :: "ProfitAndLoss list \<Rightarrow> string \<times> (ProfitAndLoss \<Rightarrow> real) \<Rightarrow> TrendResult list" where
  "trendOf periods m =
     (let values = map (snd m) periods;
          direction = detectDirection values
      in if direction \<noteq> Stable
         then (let firstVal = hd values;
                   lastVal = last values;
                   magnitude =
                     (if firstVal \<noteq> 0 then \<bar>((lastVal - firstVal) / \<bar>firstVal\<bar>) * 100\<bar> else 0)
               in [ \<lparr> t_metric = fst m,
                      t_direction = direction,
                      t_periods = length periods,
                      t_magnitude = round1 magnitude \<rparr> ])
         else [])"

definition detectTrends :: "ProfitAndLoss list \<Rightarrow> TrendResult list" where
  "detectTrends periods =
     (if length periods < 2 then [] else concat (map (trendOf periods) trendMetrics))"

section \<open>Anomaly detection\<close>

definition historicalValues :: "ProfitAndLoss list \<Rightarrow> string \<Rightarrow> real list" where
  "historicalValues historicalPeriods nm =
     map amount
       (List.map_filter (\<lambda>p. find (\<lambda>c. name c = nm) (expenseCategories p)) historicalPeriods)"

text \<open>
  \<open>Math.abs(((amount - mean) / mean) * 100)\<close> divides by a mean that can be zero. The
  IEEE quotient is then infinite for a nonzero numerator (severity high) and NaN for a
  zero one (both comparisons false, severity low).
\<close>

definition deviationSeverity :: "real \<Rightarrow> real \<Rightarrow> Level" where
  "deviationSeverity amt mean =
     (if mean = 0 then (if amt - mean \<noteq> 0 then High else Low)
      else (let deviation = \<bar>((amt - mean) / mean) * 100\<bar>
            in if deviation > 50 then High else if deviation > 25 then Medium else Low))"

text \<open>One iteration of the loop over the categories of the latest period.\<close>

definition checkCategory :: "ProfitAndLoss list \<Rightarrow> ExpenseCategory \<Rightarrow> AnomalyResult list" where
  "checkCategory historicalPeriods category =
     (let hv = historicalValues historicalPeriods (name category)
      in if length hv < 2 then []
         else (let mean = foldl (\<lambda>s v. s + v) 0 hv / real (length hv);
                   stdDev = sqrt (foldl (\<lambda>s v. s + (v - mean) ^ 2) 0 hv / real (length hv));
                   upperBound = mean + 1.5 * stdDev;
                   lowerBound = max 0 (mean - 1.5 * stdDev)
               in if amount category > upperBound \<or> amount category < lowerBound
                  then [ \<lparr> a_metric = name category,
                           a_value = amount category,
                           a_expectedMin = mathRound lowerBound,
                           a_expectedMax = mathRound upperBound,
                           a_severity = deviationSeverity (amount category) mean \<rparr> ]
                  else []))"

definition levelRank :: "Level \<Rightarrow> real" where
  "levelRank s = (if s = High then 0 else if s = Medium then 1 else 2)"

definition detectAnomalies :: "ProfitAndLoss list \<Rightarrow> AnomalyResult list" where
  "detectAnomalies periods =
     (if length periods < 3 then []
      else (let latestPeriod = last periods;
                historicalPeriods = butlast periods
            in sortBy (\<lambda>a b. levelRank (a_severity a) - levelRank (a_severity b))
                 (concat (map (checkCategory historicalPeriods) (expenseCategories latestPeriod)))))"

section \<open>Issues requiring attention\<close>

text \<open>
  Strings are byte strings. \<open>toLowerCase\<close>, \<open>/\s+/g\<close> and \<open>trim\<close> are modelled on
  ASCII: the letters \<open>A\<close> to \<open>Z\<close> and the white space characters tab, line feed,
  vertical tab, form feed, carriage return and space.
\<close>

definition toLowerChar :: "char \<Rightarrow> char" where
  "toLowerChar c =
     (if 65 \<le> (of_char c :: nat) \<and> (of_char c :: nat) \<le> 90 then char_of ((of_char c :: nat) + 32) else c)"

definition toLowerCase :: "string \<Rightarrow> string" where
  "toLowerCase s = map toLowerChar s"

definition isSpace :: "char \<Rightarrow> bool" where
  "isSpace c = ((of_char c :: nat) \<in> {9, 10, 11, 12, 13, 32})"

text \<open>\<open>s.replace(/\s+/g, "-")\<close>; the flag says that the previous character was white space.\<close>

fun replaceSpaces :: "bool \<Rightarrow> string \<Rightarrow> string" where
  "replaceSpaces prevSpace [] = []"
| "replaceSpaces prevSpace (c # cs) =
     (if isSpace c
      then (if prevSpace then replaceSpaces True cs else CHR ''-'' # replaceSpaces True cs)
      else c # replaceSpaces False cs)"

text \<open>
  The state of \<open>generateIssues\<close> while the rules run: the array \<open>issues\<close> and the set
  \<open>rootCauses\<close>. Each rule is one \<open>if\<close> block of the source, in source order.
\<close>

type_synonym issueState = "Issue list \<times> string set"

definition cashRunwayRule :: "RatioResult list \<Rightarrow> issueState \<Rightarrow> issueState" where
  "cashRunwayRule ratios st =
     (case find (\<lambda>r. r_name r = ''Cash Runway'') ratios of
        None \<Rightarrow> st
      | Some cashRunway \<Rightarrow>
          (if r_value cashRunway < 3
           then (fst st @ [ \<lparr> i_id = ''iss-cash-runway'',
                              i_severity = Critical,
                              i_metric = ''cash_runway'',
                              i_currentValue = r_value cashRunway,
                              i_threshold = Some 3,
                              i_periodsActive = 1 \<rparr> ],
                 insert ''cash'' (snd st))
           else st))"

definition expenseRevenueRule :: "VarianceResult list \<Rightarrow> issueState \<Rightarrow> issueState" where
  "expenseRevenueRule variances st =
     (case find (\<lambda>v. v_metric v = ''Revenue'') variances of
        None \<Rightarrow> st
      | Some revenueVariance \<Rightarrow>
          (case find (\<lambda>v. v_metric v = ''Total Expenses'') variances of
             None \<Rightarrow> st
           | Some expenseVariance \<Rightarrow>
               (if v_percentChange expenseVariance > v_percentChange revenueVariance + 5
                   \<and> ''expense_revenue'' \<notin> snd st
                then (fst st @ [ \<lparr> i_id = ''iss-expense-revenue'',
                                   i_severity =
                                     (if v_percentChange expenseVariance > v_percentChange revenueVariance + 15
                                      then Critical else Warning),
                                   i_metric = ''expense_to_revenue_ratio'',
                                   i_currentValue = v_percentChange expenseVariance,
                                   i_threshold = Some (v_percentChange revenueVariance + 5),
                                   i_periodsActive = 1 \<rparr> ],
                      insert ''expense_revenue'' (snd st))
                else st)))"

definition marginRule :: "TrendResult list \<Rightarrow> issueState \<Rightarrow> issueState" where
  "marginRule trends st =
     (case find (\<lambda>t. t_metric t = ''Gross Profit'' \<and> t_direction t = Decreasing) trends of
        None \<Rightarrow> st
      | Some marginTrend \<Rightarrow>
          (if t_periods marginTrend \<ge> 2 \<and> ''margin'' \<notin> snd st
           then (fst st @ [ \<lparr> i_id = ''iss-margin-decline'',
                              i_severity = (if t_periods marginTrend \<ge> 3 then Warning else Info),
                              i_metric = ''gross_margin_trend'',
                              i_currentValue = t_magnitude marginTrend,
                              i_threshold = None,
                              i_periodsActive = t_periods marginTrend \<rparr> ],
                 insert ''margin'' (snd st))
           else st))"

definition anomalyRule :: "AnomalyResult \<Rightarrow> issueState \<Rightarrow> issueState" where
  "anomalyRule anomaly st =
     (let rootKey = ''anomaly-'' @ a_metric anomaly
      in if rootKey \<notin> snd st
         then (fst st @ [ \<lparr> i_id = ''iss-anomaly-'' @ replaceSpaces False (toLowerCase (a_metric anomaly)),
                            i_severity = (if a_severity anomaly = High then Warning else Info),
                            i_metric = ''anomaly_'' @ a_metric anomaly,
                            i_currentValue = a_value anomaly,
                            i_threshold = None,
                            i_periodsActive = 1 \<rparr> ],
               insert rootKey (snd st))
         else st)"

definition collectIssues ::
  "VarianceResult list \<Rightarrow> RatioResult list \<Rightarrow> TrendResult list \<Rightarrow> AnomalyResult list \<Rightarrow> issueState" where
  "collectIssues variances ratios trends anomalies =
     fold anomalyRule (take 2 anomalies)
       (marginRule trends (expenseRevenueRule variances (cashRunwayRule ratios ([], {}))))"

definition severityOrder :: "IssueSeverity \<Rightarrow> real" where
  "severityOrder s = (case s of Critical \<Rightarrow> 0 | Warning \<Rightarrow> 1 | Info \<Rightarrow> 2)"

text \<open>\<open>order[a.severity] - order[b.severity] || b.currentValue - a.currentValue\<close>\<close>

definition issueCmp :: "Issue \<Rightarrow> Issue \<Rightarrow> real" where
  "issueCmp a b =
     (let d = severityOrder (i_severity a) - severityOrder (i_severity b)
      in if d \<noteq> 0 then d else i_currentValue b - i_currentValue a)"

definition generateIssues ::
  "VarianceResult list \<Rightarrow> RatioResult list \<Rightarrow> TrendResult list \<Rightarrow> AnomalyResult list \<Rightarrow>
   CashPosition option \<Rightarrow> Issue list" where
  "generateIssues variances ratios trends anomalies cashPosition =
     take 5 (sortBy issueCmp (fst (collectIssues variances ratios trends anomalies)))"

text \<open>
  The root-cause tag under which an issue was pushed, read back from its \<open>metric\<close>
  field: the three fixed rules write the fixed metrics, the anomaly rule writes
  \<open>anomaly_\<close> followed by the anomaly's metric and tags \<open>anomaly-\<close> followed by it.
  Lemma \<open>collectIssues_rootCauses\<close> below shows that these are the tags of the set
  \<open>rootCauses\<close>.
\<close>

definition rootCauseOf :: "Issue \<Rightarrow> string" where
  "rootCauseOf i =
     (if i_metric i = ''cash_runway'' then ''cash''
      else if i_metric i = ''expense_to_revenue_ratio'' then ''expense_revenue''
      else if i_metric i = ''gross_margin_trend'' then ''margin''
      else ''anomaly-'' @ drop 8 (i_metric i))"

section \<open>Statement normaliser (QuickBooks report parser)\<close>

text \<open>
  A report row as the parser reads it: the cell values of \<open>ColData\<close>, the nested
  \<open>Rows.Row\<close>, the \<open>group\<close> tag and the cell values of \<open>Summary.ColData\<close>, each
  possibly absent. Of the report, the parser reads the header's period bounds, the column
  titles and the rows.
\<close>

datatype QBReportRow =
  QBReportRow (ColData: "string list option") (Rows: "QBReportRow list option")
    (group: "string option") (Summary: "string list option")

record QBReport =
  StartPeriod :: string
  EndPeriod :: string
  Columns :: "string list option"
  ReportRows :: "QBReportRow list option"

text \<open>\<open>cells?.[i]?.value || d\<close>: the default replaces an absent and an empty value.\<close>

definition valueOr :: "string list option \<Rightarrow> nat \<Rightarrow> string \<Rightarrow> string" where
  "valueOr cells i d =
     (case cells of
        None \<Rightarrow> d
      | Some cs \<Rightarrow> (if i < length cs \<and> cs ! i \<noteq> [] then cs ! i else d))"

definition reportRows :: "QBReport \<Rightarrow> QBReportRow list" where
  "reportRows report = (case ReportRows report of None \<Rightarrow> [] | Some rs \<Rightarrow> rs)"

text \<open>
  The built-in \<open>parseFloat\<close> and the date formatting of \<open>formatPeriodLabel\<close> are
  parameters of the parser (\<open>pf\<close> and \<open>fmt\<close>): every statement below holds for any
  reading of numerals and any label.
\<close>

definition expenseRow :: "(string \<Rightarrow> real) \<Rightarrow> QBReportRow \<Rightarrow> ExpenseCategory list" where
  "expenseRow pf expRow =
     (case ColData expRow of
        None \<Rightarrow> []
      | Some cs \<Rightarrow>
          (if length cs \<ge> 2
           then (let nm = valueOr (Some cs) 0 ''Unknown'';
                     amt = pf (valueOr (Some cs) 1 ''0'')
                 in if amt \<noteq> 0 \<and> nm \<noteq> [] then [ \<lparr> name = nm, amount = amt \<rparr> ] else [])
           else []))"

definition pnlRow :: "(string \<Rightarrow> real) \<Rightarrow> QBReportRow \<Rightarrow> ProfitAndLoss \<Rightarrow> ProfitAndLoss" where
  "pnlRow pf row acc =
     (let groupName = (case group row of None \<Rightarrow> [] | Some g \<Rightarrow> g);
          summaryValue = pf (valueOr (Summary row) 1 ''0'')
      in if groupName = ''Income'' then acc \<lparr> totalRevenue := summaryValue \<rparr>
         else if groupName = ''COGS'' then acc \<lparr> totalCogs := summaryValue \<rparr>
         else if groupName = ''GrossProfit'' then acc \<lparr> grossProfit := summaryValue \<rparr>
         else if groupName = ''Expenses''
           then acc \<lparr> totalExpenses := summaryValue,
                      expenseCategories :=
                        expenseCategories acc
                        @ (case Rows row of None \<Rightarrow> [] | Some rs \<Rightarrow> concat (map (expenseRow pf) rs)) \<rparr>
         else if groupName = ''OtherExpenses''
           then acc \<lparr> totalExpenses := totalExpenses acc + summaryValue \<rparr>
         else if groupName = ''NetIncome'' \<or> groupName = ''NetOperatingIncome''
           then acc \<lparr> netIncome := summaryValue \<rparr>
         else acc)"

text \<open>The tail shared by both parsers: derive the gross profit, sort the categories.\<close>

definition finishPeriod :: "ProfitAndLoss \<Rightarrow> ProfitAndLoss" where
  "finishPeriod acc =
     acc \<lparr> grossProfit :=
             (if grossProfit acc = 0 \<and> totalRevenue acc > 0
              then totalRevenue acc - totalCogs acc else grossProfit acc),
           expenseCategories :=
             sortBy (\<lambda>a b. \<bar>amount b\<bar> - \<bar>amount a\<bar>) (expenseCategories acc) \<rparr>"

definition emptyPeriod :: "PeriodData \<Rightarrow> ProfitAndLoss" where
  "emptyPeriod pd =
     \<lparr> period = pd, totalRevenue = 0, totalCogs = 0, grossProfit = 0, totalExpenses = 0,
       netIncome = 0, expenseCategories = [] \<rparr>"

definition parseProfitAndLoss ::
  "(string \<Rightarrow> real) \<Rightarrow> (string \<Rightarrow> string \<Rightarrow> string) \<Rightarrow> QBReport \<Rightarrow> ProfitAndLoss" where
  "parseProfitAndLoss pf fmt report =
     finishPeriod
       (fold (pnlRow pf) (reportRows report)
          (emptyPeriod \<lparr> periodStart = StartPeriod report,
                         periodEnd = EndPeriod report,
                         label = fmt (StartPeriod report) (EndPeriod report) \<rparr>))"

definition monthlyExpenseRow :: "(string \<Rightarrow> real) \<Rightarrow> nat \<Rightarrow> QBReportRow \<Rightarrow> ExpenseCategory list" where
  "monthlyExpenseRow pf dataIdx expRow =
     (case ColData expRow of
        None \<Rightarrow> []
      | Some cs \<Rightarrow>
          (if length cs > dataIdx
           then (let nm = valueOr (Some cs) 0 ''Unknown'';
                     amt = pf (valueOr (Some cs) dataIdx ''0'')
                 in if amt \<noteq> 0 then [ \<lparr> name = nm, amount = amt \<rparr> ] else [])
           else []))"

definition monthlyRow ::
  "(string \<Rightarrow> real) \<Rightarrow> nat \<Rightarrow> QBReportRow \<Rightarrow> ProfitAndLoss \<Rightarrow> ProfitAndLoss" where
  "monthlyRow pf dataIdx row acc =
     (let groupName = (case group row of None \<Rightarrow> [] | Some g \<Rightarrow> g);
          summaryValue = pf (valueOr (Summary row) dataIdx ''0'')
      in if groupName = ''Income'' then acc \<lparr> totalRevenue := summaryValue \<rparr>
         else if groupName = ''COGS'' then acc \<lparr> totalCogs := summaryValue \<rparr>
         else if groupName = ''GrossProfit'' then acc \<lparr> grossProfit := summaryValue \<rparr>
         else if groupName = ''Expenses''
           then acc \<lparr> totalExpenses := summaryValue,
                      expenseCategories :=
                        expenseCategories acc
                        @ (case Rows row of
                             None \<Rightarrow> []
                           | Some rs \<Rightarrow> concat (map (monthlyExpenseRow pf dataIdx) rs)) \<rparr>
         else if groupName = ''NetIncome'' \<or> groupName = ''NetOperatingIncome''
           then acc \<lparr> netIncome := summaryValue \<rparr>
         else acc)"

definition monthColumns :: "QBReport \<Rightarrow> string list" where
  "monthColumns report =
     filter (\<lambda>colTitle. colTitle \<noteq> [] \<and> colTitle \<noteq> ''Total'')
       (drop 1 (case Columns report of None \<Rightarrow> [] | Some cs \<Rightarrow> cs))"

definition parseMonth :: "(string \<Rightarrow> real) \<Rightarrow> QBReport \<Rightarrow> nat \<Rightarrow> ProfitAndLoss" where
  "parseMonth pf report colIdx =
     (let dataIdx = colIdx + 1;
          colTitle = monthColumns report ! colIdx
      in finishPeriod
           (fold (monthlyRow pf dataIdx) (reportRows report)
              (emptyPeriod \<lparr> periodStart = colTitle, periodEnd = colTitle, label = colTitle \<rparr>)))"

definition parseMonthlyPnL :: "(string \<Rightarrow> real) \<Rightarrow> QBReport \<Rightarrow> ProfitAndLoss list" where
  "parseMonthlyPnL pf report =
     map (parseMonth pf report) [0 ..< length (monthColumns report)]"

text \<open>A report supplies the gross profit explicitly when one of its rows is the \<open>GrossProfit\<close> group.\<close>

definition suppliesGrossProfit :: "QBReport \<Rightarrow> bool" where
  "suppliesGrossProfit report = list_ex (\<lambda>row. group row = Some ''GrossProfit'') (reportRows report)"

text \<open>
  A reading of plain decimal numerals (an optional minus sign, digits, an optional
  fraction), on which it agrees with \<open>parseFloat\<close>. It instantiates \<open>pf\<close> in the
  concrete examples only.
\<close>

definition isDigit :: "char \<Rightarrow> bool" where
  "isDigit c = (48 \<le> (of_char c :: nat) \<and> (of_char c :: nat) \<le> 57)"

definition digitsValue :: "string \<Rightarrow> nat" where
  "digitsValue ds = foldl (\<lambda>n c. 10 * n + ((of_char c :: nat) - 48)) 0 ds"

definition unsignedDecimal :: "string \<Rightarrow> real" where
  "unsignedDecimal s =
     (let ip = takeWhile isDigit s;
          rest = dropWhile isDigit s;
          fp = (case rest of [] \<Rightarrow> [] | c # cs \<Rightarrow> (if c = CHR ''.'' then takeWhile isDigit cs else []))
      in real (digitsValue ip) + real (digitsValue fp) / 10 ^ length fp)"

definition decimalNumeral :: "string \<Rightarrow> real" where
  "decimalNumeral s =
     (case s of
        [] \<Rightarrow> 0
      | c # cs \<Rightarrow> (if c = CHR ''-'' then - unsignedDecimal cs else unsignedDecimal s))"

section \<open>Explanation gateway\<close>

text \<open>
  The text-generation service is the environment of the gateway: \<open>gen k\<close> is the outcome
  of the \<open>k\<close>-th call of \<open>generateText\<close> in one invocation, either the generated text or
  a thrown exception. The prompt is a function of the call number and the input, so an
  outcome per call covers every service that depends on the prompt. An exception that
  reached \<open>generateInsightsFromMetrics\<close> would reject its promise: the result type is a
  sum, \<open>Inl\<close> the exception.
\<close>

datatype exn = Exn string

datatype InsightType = VarianceInsight | TrendInsight | AnomalyInsight | HealthSignal | IssueInsight

record AIInsight =
  ins_type :: InsightType
  ins_confidence :: Level
  ins_action :: "string option"
  ins_severity :: "IssueSeverity option"
  ins_promptVersion :: string
  ins_isStale :: bool

record InsightData =
  d_variances :: "VarianceResult list"
  d_ratios :: "RatioResult list"
  d_trends :: "TrendResult list"
  d_anomalies :: "AnomalyResult list"
  d_issues :: "Issue list"
  d_current :: ProfitAndLoss
  d_previous :: "ProfitAndLoss option"

definition PROMPT_VERSION :: string where
  "PROMPT_VERSION = ''v1.0''"

definition trim :: "string \<Rightarrow> string" where
  "trim s = rev (dropWhile isSpace (rev (dropWhile isSpace s)))"

text \<open>\<open>callAI\<close>: the \<open>try\<close> returns the trimmed text, the \<open>catch\<close> returns no action.\<close>

definition callAI :: "(nat \<Rightarrow> exn + string) \<Rightarrow> nat \<Rightarrow> exn + string option" where
  "callAI gen k =
     (case gen k of
        Inr text \<Rightarrow> Inr (Some (trim text))
      | Inl error \<Rightarrow> Inr None)"

text \<open>The state threaded through the function: the number of calls made and the array \<open>insights\<close>.\<close>

type_synonym insightState = "nat \<times> AIInsight list"

definition significantVariances :: "InsightData \<Rightarrow> VarianceResult list" where
  "significantVariances data =
     filter (\<lambda>v. v_significance v \<noteq> Low \<and> v_metric v \<noteq> ''Cost of Goods Sold'') (d_variances data)"

definition varianceInsight :: "VarianceResult list \<Rightarrow> string option \<Rightarrow> AIInsight" where
  "varianceInsight vs explanation =
     \<lparr> ins_type = VarianceInsight,
       ins_confidence = (if list_ex (\<lambda>v. v_significance v = High) vs then High else Medium),
       ins_action = explanation,
       ins_severity = None,
       ins_promptVersion = PROMPT_VERSION,
       ins_isStale = False \<rparr>"

definition varianceStep :: "(nat \<Rightarrow> exn + string) \<Rightarrow> InsightData \<Rightarrow> insightState \<Rightarrow> exn + insightState" where
  "varianceStep gen data st =
     (if length (significantVariances data) > 0
      then (case callAI gen (fst st) of
              Inl e \<Rightarrow> Inl e
            | Inr explanation \<Rightarrow>
                Inr (fst st + 1, snd st @ [varianceInsight (significantVariances data) explanation]))
      else Inr st)"

definition trendInsight :: "TrendResult \<Rightarrow> string option \<Rightarrow> AIInsight" where
  "trendInsight trend explanation =
     \<lparr> ins_type = TrendInsight,
       ins_confidence = (if t_periods trend \<ge> 3 then High else Medium),
       ins_action = explanation,
       ins_severity = None,
       ins_promptVersion = PROMPT_VERSION,
       ins_isStale = False \<rparr>"

fun trendSteps :: "(nat \<Rightarrow> exn + string) \<Rightarrow> TrendResult list \<Rightarrow> insightState \<Rightarrow> exn + insightState" where
  "trendSteps gen [] st = Inr st"
| "trendSteps gen (trend # rest) st =
     (case callAI gen (fst st) of
        Inl e \<Rightarrow> Inl e
      | Inr explanation \<Rightarrow>
          trendSteps gen rest (fst st + 1, snd st @ [trendInsight trend explanation]))"

definition anomalyInsight :: "AnomalyResult \<Rightarrow> AIInsight" where
  "anomalyInsight anomaly =
     \<lparr> ins_type = AnomalyInsight,
       ins_confidence = (if a_severity anomaly = High then High else Medium),
       ins_action =
         Some (''Review recent '' @ toLowerCase (a_metric anomaly)
               @ '' to check if this is a one-time event or a new pattern.''),
       ins_severity = None,
       ins_promptVersion = PROMPT_VERSION,
       ins_isStale = False \<rparr>"

definition healthInsights :: "RatioResult list \<Rightarrow> AIInsight list" where
  "healthInsights ratios =
     (let decliningRatios = filter (\<lambda>r. r_trend r = Declining) ratios
      in if length decliningRatios > 0
         then [ \<lparr> ins_type = HealthSignal,
                  ins_confidence = High,
                  ins_action = None,
                  ins_severity = None,
                  ins_promptVersion = PROMPT_VERSION,
                  ins_isStale = False \<rparr> ]
         else [])"

definition generateInsightsFromMetrics :: "(nat \<Rightarrow> exn + string) \<Rightarrow> InsightData \<Rightarrow> exn + AIInsight list" where
  "generateInsightsFromMetrics gen data =
     (case varianceStep gen data (0, []) of
        Inl e \<Rightarrow> Inl e
      | Inr st1 \<Rightarrow>
          (case trendSteps gen (take 2 (d_trends data)) st1 of
             Inl e \<Rightarrow> Inl e
           | Inr st2 \<Rightarrow>
               Inr (snd st2
                    @ map anomalyInsight (take 2 (d_anomalies data))
                    @ healthInsights (d_ratios data))))"

section \<open>Notions used to state the properties\<close>

subsection \<open>Issue synthesis\<close>

text \<open>
  While the rules of \<open>generateIssues\<close> run, the set \<open>rootCauses\<close> holds exactly the tags
  of the issues pushed so far, no tag belongs to two issues, and at most \<open>n\<close> issues have
  been pushed.
\<close>

definition issuesInv :: "nat \<Rightarrow> issueState \<Rightarrow> bool" where
  "issuesInv n st \<longleftrightarrow>
     rootCauseOf ` set (fst st) = snd st \<and> distinct (map rootCauseOf (fst st)) \<and> length (fst st) \<le> n"

text \<open>
  The four kinds of issue that the rules push, told apart by \<open>id\<close> and \<open>metric\<close>.
\<close>

definition issueShape :: "Issue \<Rightarrow> bool" where
  "issueShape i \<longleftrightarrow>
     (i_id i = ''iss-cash-runway'' \<and> i_metric i = ''cash_runway'')
     \<or> (i_id i = ''iss-expense-revenue'' \<and> i_metric i = ''expense_to_revenue_ratio'')
     \<or> (i_id i = ''iss-margin-decline'' \<and> i_metric i = ''gross_margin_trend'')
     \<or> (i_id i = ''iss-anomaly-'' @ replaceSpaces False (toLowerCase (drop 8 (i_metric i)))
         \<and> take 8 (i_metric i) = ''anomaly_'')"

text \<open>The issue pushed by the margin rule for the trend it found.\<close>

definition marginIssue :: "TrendResult \<Rightarrow> Issue" where
  "marginIssue marginTrend =
     \<lparr> i_id = ''iss-margin-decline'',
       i_severity = (if t_periods marginTrend \<ge> 3 then Warning else Info),
       i_metric = ''gross_margin_trend'',
       i_currentValue = t_magnitude marginTrend,
       i_threshold = None,
       i_periodsActive = t_periods marginTrend \<rparr>"

text \<open>
  A series in which every value lies below its predecessor by more than 3 percent of the
  predecessor's magnitude.
\<close>

fun stepsDown :: "real list \<Rightarrow> bool" where
  "stepsDown (a # b # rest) \<longleftrightarrow> b - a < - (\<bar>a\<bar> * 0.03) \<and> stepsDown (b # rest)"
| "stepsDown rest \<longleftrightarrow> True"

subsection \<open>Explanation gateway\<close>

text \<open>What \<open>callAI\<close> makes of the outcome of call \<open>k\<close>.\<close>

definition actionOf :: "(nat \<Rightarrow> exn + string) \<Rightarrow> nat \<Rightarrow> string option" where
  "actionOf gen k = (case gen k of Inl e \<Rightarrow> None | Inr text \<Rightarrow> Some (trim text))"

text \<open>The number of text-generation calls of one invocation: one for the variance insight if there is one, one per trend insight.\<close>

definition aiCalls :: "InsightData \<Rightarrow> nat" where
  "aiCalls data =
     (if length (significantVariances data) > 0 then 1 else 0) + length (take 2 (d_trends data))"

text \<open>An insight with its \<open>action\<close> removed.\<close>

definition withoutAction :: "AIInsight \<Rightarrow> AIInsight" where
  "withoutAction i = i \<lparr> ins_action := None \<rparr>"

text \<open>The insights that carry a generated action, as a function of the outcomes.\<close>

definition aiInsights :: "(nat \<Rightarrow> exn + string) \<Rightarrow> InsightData \<Rightarrow> AIInsight list" where
  "aiInsights gen data =
     (if length (significantVariances data) > 0
      then [varianceInsight (significantVariances data) (actionOf gen 0)] else [])
     @ map (\<lambda>j. trendInsight (take 2 (d_trends data) ! j)
                   (actionOf gen ((if length (significantVariances data) > 0 then 1 else 0) + j)))
         [0 ..< length (take 2 (d_trends data))]"

section \<open>Concrete inputs of the examples\<close>

subsection \<open>Statements\<close>

definition zeroStatement :: ProfitAndLoss where
  "zeroStatement = emptyPeriod \<lparr> periodStart = [], periodEnd = [], label = [] \<rparr>"

definition revenueOnly :: "real \<Rightarrow> ProfitAndLoss" where
  "revenueOnly r = zeroStatement \<lparr> totalRevenue := r \<rparr>"

definition halfSpent :: ProfitAndLoss where
  "halfSpent = zeroStatement \<lparr> totalRevenue := 100, totalExpenses := 50 \<rparr>"

definition expenseCurrent :: ProfitAndLoss where
  "expenseCurrent = zeroStatement \<lparr> expenseCategories := [ \<lparr> name = ''Rent'', amount = 1100 \<rparr> ] \<rparr>"

definition expensePrevious :: ProfitAndLoss where
  "expensePrevious =
     zeroStatement \<lparr> expenseCategories :=
       [ \<lparr> name = ''Rent'', amount = 1000 \<rparr>, \<lparr> name = ''Misc'', amount = 1000 \<rparr> ] \<rparr>"

definition runwayCurrent :: ProfitAndLoss where
  "runwayCurrent = zeroStatement \<lparr> totalRevenue := 15000, totalExpenses := 20000 \<rparr>"

definition runwayCash :: CashPosition where
  "runwayCash = \<lparr> currentBalance = 15000, previousBalance = 0, asOfDate = [] \<rparr>"

definition fivePeriods :: "ProfitAndLoss list" where
  "fivePeriods = map (\<lambda>g. zeroStatement \<lparr> grossProfit := g \<rparr>) [100, 90, 80, 70, 60]"

definition quietPeriod :: ProfitAndLoss where
  "quietPeriod = zeroStatement \<lparr> expenseCategories := [ \<lparr> name = ''Rent'', amount = 1000 \<rparr> ] \<rparr>"

definition busyPeriod :: ProfitAndLoss where
  "busyPeriod = zeroStatement \<lparr> expenseCategories :=
     [ \<lparr> name = ''Rent'', amount = 1700 \<rparr>, \<lparr> name = ''Travel'', amount = 50 \<rparr> ] \<rparr>"

subsection \<open>Ratios, anomalies and issues\<close>

definition rentAnomaly :: AnomalyResult where
  "rentAnomaly = \<lparr> a_metric = ''Office Rent'', a_value = 1700, a_expectedMin = 850, a_expectedMax = 1150,
     a_severity = High \<rparr>"

definition rentIssue :: Issue where
  "rentIssue = \<lparr> i_id = ''iss-anomaly-office-rent'', i_severity = Warning, i_metric = ''anomaly_Office Rent'',
     i_currentValue = 1700, i_threshold = None, i_periodsActive = 1 \<rparr>"

definition adsAnomaly :: AnomalyResult where
  "adsAnomaly = \<lparr> a_metric = ''Ads'', a_value = 2500, a_expectedMin = 900, a_expectedMax = 1100,
     a_severity = High \<rparr>"

definition shortRunway :: RatioResult where
  "shortRunway = \<lparr> r_name = ''Cash Runway'', r_value = 2, r_previousValue = None, r_trend = Declining,
     r_description = ''Months your cash will last at current spending'' \<rparr>"

subsection \<open>Text generation\<close>

text \<open>Scenario 5: the call for the variance insight returns, the call for the trend insight throws.\<close>

definition scenarioGen :: "nat \<Rightarrow> exn + string" where
  "scenarioGen k = (if k = 0 then Inr '' Raise prices. '' else Inl (Exn ''timeout''))"

definition scenarioData :: InsightData where
  "scenarioData =
     \<lparr> d_variances = computeVariances (revenueOnly 130000) (revenueOnly 100000),
       d_ratios = [],
       d_trends = [ \<lparr> t_metric = ''Revenue'', t_direction = Increasing, t_periods = 5, t_magnitude = 30 \<rparr> ],
       d_anomalies = [],
       d_issues = [],
       d_current = revenueOnly 130000,
       d_previous = Some (revenueOnly 100000) \<rparr>"

subsection \<open>Reports\<close>

text \<open>
  A label function and two reports for the parser examples. The first report is a month
  with purchases and no sales: its only row is the COGS section with a total of 500.
\<close>

definition plainLabel :: "string \<Rightarrow> string \<Rightarrow> string" where
  "plainLabel start end = start"

definition cogsOnlyReport :: QBReport where
  "cogsOnlyReport =
     \<lparr> StartPeriod = ''2026-01-01'', EndPeriod = ''2026-01-31'',
       Columns = Some ['''', ''Jan 2026'', ''Total''],
       ReportRows = Some
         [ QBReportRow (Some []) None (Some ''COGS'')
             (Some [''Total Cost of Goods Sold'', ''500'', ''500'']) ] \<rparr>"

definition monthlyReport :: QBReport where
  "monthlyReport =
     \<lparr> StartPeriod = ''2026-01-01'', EndPeriod = ''2026-01-31'',
       Columns = Some ['''', ''Jan 2026'', ''Total''],
       ReportRows = Some
         [ QBReportRow None None (Some ''Income'') (Some [''Total Income'', ''1000'', ''1000'']),
           QBReportRow None None (Some ''COGS'') (Some [''Total Cost of Goods Sold'', ''400'', ''400'']),
           QBReportRow None
             (Some [ QBReportRow (Some [''Rent'', ''200'', ''200'']) None None None,
                     QBReportRow (Some [''Payroll'', ''300'', ''300'']) None None None ])
             (Some ''Expenses'') (Some [''Total Expenses'', ''500'', ''500'']) ] \<rparr>"

section \<open>Significance of headline variances\<close>

lemma mkVariance_fields:
  "v_metric (mkVariance hi m cur prev) = m"
  "v_currentValue (mkVariance hi m cur prev) = cur"
  "v_previousValue (mkVariance hi m cur prev) = prev"
  "v_absoluteChange (mkVariance hi m cur prev) = cur - prev"
  "v_percentChange (mkVariance hi m cur prev) = round1 (rawPercent cur prev)"
  "v_significance (mkVariance hi m cur prev) =
     (if \<bar>rawPercent cur prev\<bar> > hi then High
      else if \<bar>rawPercent cur prev\<bar> > 10 then Medium else Low)"
  by (simp_all add: mkVariance_def rawPercent_def Let_def)




section \<open>The sort\<close>

lemma sortBy_simps [simp]:
  "sortBy cmp [] = []"
  "sortBy cmp (x # xs) = insertBy cmp x (sortBy cmp xs)"
  by (simp_all add: sortBy_def)

lemma set_insertBy [simp]: "set (insertBy cmp x xs) = insert x (set xs)"
  by (induction xs) auto

lemma length_insertBy [simp]: "length (insertBy cmp x xs) = Suc (length xs)"
  by (induction xs) auto

lemma set_sortBy [simp]: "set (sortBy cmp xs) = set xs"
  by (induction xs) auto

lemma length_sortBy [simp]: "length (sortBy cmp xs) = length xs"
  by (induction xs) auto

lemma distinct_map_insertBy:
  "distinct (map f (insertBy cmp x xs)) \<longleftrightarrow> f x \<notin> f ` set xs \<and> distinct (map f xs)"
  by (induction xs) auto

lemma distinct_map_sortBy: "distinct (map f (sortBy cmp xs)) \<longleftrightarrow> distinct (map f xs)"
  by (induction xs) (auto simp: distinct_map_insertBy)

text \<open>
  For a comparator that is total and transitive, the result is ordered by it: no element
  is followed by one that the comparator puts strictly in front of it.
\<close>

lemma sorted_insertBy:
  assumes total: "\<And>a b. cmp a b \<le> 0 \<or> cmp b a \<le> 0"
    and trans: "\<And>a b c. cmp a b \<le> 0 \<Longrightarrow> cmp b c \<le> 0 \<Longrightarrow> cmp a c \<le> 0"
    and sorted: "sorted_wrt (\<lambda>a b. cmp a b \<le> 0) xs"
  shows "sorted_wrt (\<lambda>a b. cmp a b \<le> 0) (insertBy cmp x xs)"
  using sorted
proof (induction xs)
  case Nil
  then show ?case by simp
next
  case (Cons y ys)
  show ?case
  proof (cases "cmp x y \<le> 0")
    case True
    with Cons.prems trans show ?thesis by auto
  next
    case False
    with total have "cmp y x \<le> 0" by blast
    with False Cons show ?thesis by auto
  qed
qed

lemma sorted_sortBy:
  assumes total: "\<And>a b. cmp a b \<le> 0 \<or> cmp b a \<le> 0"
    and trans: "\<And>a b c. cmp a b \<le> 0 \<Longrightarrow> cmp b c \<le> 0 \<Longrightarrow> cmp a c \<le> 0"
  shows "sorted_wrt (\<lambda>a b. cmp a b \<le> 0) (sortBy cmp xs)"
proof (induction xs)
  case Nil
  show ?case by simp
next
  case (Cons x xs)
  then show ?case using sorted_insertBy [of cmp, OF total trans] by simp
qed

section \<open>Expense-category variances\<close>

lemma keys_mapSet: "fst ` set (mapSet m k v) = insert k (fst ` set m)"
  by (induction m k v rule: mapSet.induct) auto

lemma keys_newMap_aux:
  "fst ` set (foldl (\<lambda>m (k, v). mapSet m k v) m0 es) = fst ` set m0 \<union> fst ` set es"
proof (induction es arbitrary: m0)
  case Nil
  show ?case by simp
next
  case (Cons e es)
  obtain k v where e: "e = (k, v)" by (cases e)
  show ?case by (simp add: e Cons.IH keys_mapSet)
qed

lemma keys_newMap: "set (mapKeys (newMap es)) = fst ` set es"
  using keys_newMap_aux [of "[]" es] by (simp add: newMap_def mapKeys_def)

lemma set_newSet_aux:
  "set (foldl (\<lambda>s x. if x \<in> set s then s else s @ [x]) s0 xs) = set s0 \<union> set xs"
  by (induction xs arbitrary: s0) auto

lemma set_newSet: "set (newSet xs) = set xs"
  using set_newSet_aux [of "[]" xs] by (simp add: newSet_def)

lemma keys_categoryMap: "set (mapKeys (categoryMap p)) = name ` set (expenseCategories p)"
  by (simp add: categoryMap_def keys_newMap image_image)

lemma getOrZero_absent: "k \<notin> set (mapKeys m) \<Longrightarrow> getOrZero m k = 0"
  by (simp add: getOrZero_def mapKeys_def map_of_eq_None_iff [THEN iffD2])

lemma categoryMap_expenseCurrent: "categoryMap expenseCurrent = [(''Rent'', 1100)]"
  by (simp add: categoryMap_def expenseCurrent_def zeroStatement_def emptyPeriod_def newMap_def)

lemma categoryMap_expensePrevious:
  "categoryMap expensePrevious = [(''Rent'', 1000), (''Misc'', 1000)]"
  by (simp add: categoryMap_def expensePrevious_def zeroStatement_def emptyPeriod_def newMap_def)

lemma categoryVariance_Rent:
  "categoryVariance expenseCurrent expensePrevious ''Rent'' =
     \<lparr> v_metric = ''Rent'', v_currentValue = 1100, v_previousValue = 1000,
       v_absoluteChange = 100, v_percentChange = 10, v_direction = Up, v_significance = Low \<rparr>"
  by (simp add: categoryVariance_def categoryMap_expenseCurrent categoryMap_expensePrevious
      getOrZero_def mkVariance_def round1_def mathRound_def)

lemma categoryVariance_Misc:
  "categoryVariance expenseCurrent expensePrevious ''Misc'' =
     \<lparr> v_metric = ''Misc'', v_currentValue = 0, v_previousValue = 1000,
       v_absoluteChange = - 1000, v_percentChange = - 100, v_direction = Down,
       v_significance = High \<rparr>"
  by (simp add: categoryVariance_def categoryMap_expenseCurrent categoryMap_expensePrevious
      getOrZero_def mkVariance_def round1_def mathRound_def)

lemma computeExpenseVariances_example:
  "computeExpenseVariances expenseCurrent expensePrevious =
     [ categoryVariance expenseCurrent expensePrevious ''Misc'',
       categoryVariance expenseCurrent expensePrevious ''Rent'' ]"
  by (simp add: computeExpenseVariances_def categoryMap_expenseCurrent
      categoryMap_expensePrevious mapKeys_def newSet_def categoryVariance_Rent
      categoryVariance_Misc)

text \<open>
  Claim C7: no entry returned by \<open>computeExpenseVariances\<close> has an absolute
  \<open>percentChange\<close> below 5; the list is in descending order of the absolute dollar change
  \<open>|absoluteChange|\<close>; every entry is the variance of a category name of one of the two
  periods, computed with amount 0 for a name that a period does not have.
\<close>

theorem computeExpenseVariances_filtered_sorted:
  "(\<forall>v \<in> set (computeExpenseVariances current previous). \<not> \<bar>v_percentChange v\<bar> < 5)
   \<and> sorted_wrt (\<lambda>a b. \<bar>v_absoluteChange a\<bar> \<ge> \<bar>v_absoluteChange b\<bar>)
        (computeExpenseVariances current previous)
   \<and> (\<forall>v \<in> set (computeExpenseVariances current previous).
        v_metric v \<in> name ` set (expenseCategories current) \<union> name ` set (expenseCategories previous)
        \<and> v = categoryVariance current previous (v_metric v))
   \<and> (\<forall>nm. nm \<notin> name ` set (expenseCategories current) \<longrightarrow>
          v_currentValue (categoryVariance current previous nm) = 0)
   \<and> (\<forall>nm. nm \<notin> name ` set (expenseCategories previous) \<longrightarrow>
          v_previousValue (categoryVariance current previous nm) = 0)"
proof (intro conjI)
  show "\<forall>v \<in> set (computeExpenseVariances current previous). \<not> \<bar>v_percentChange v\<bar> < 5"
    by (auto simp: computeExpenseVariances_def Let_def)
next
  have "sorted_wrt (\<lambda>a b. \<bar>v_absoluteChange b\<bar> - \<bar>v_absoluteChange a\<bar> \<le> 0)
          (computeExpenseVariances current previous)"
    unfolding computeExpenseVariances_def Let_def
    by (rule sorted_sortBy) auto
  then show "sorted_wrt (\<lambda>a b. \<bar>v_absoluteChange a\<bar> \<ge> \<bar>v_absoluteChange b\<bar>)
               (computeExpenseVariances current previous)"
    by simp
next
  show "\<forall>v \<in> set (computeExpenseVariances current previous).
        v_metric v \<in> name ` set (expenseCategories current) \<union> name ` set (expenseCategories previous)
        \<and> v = categoryVariance current previous (v_metric v)"
    by (auto simp: computeExpenseVariances_def Let_def set_newSet keys_categoryMap
        categoryVariance_def mkVariance_fields)
next
  show "\<forall>nm. nm \<notin> name ` set (expenseCategories current) \<longrightarrow>
          v_currentValue (categoryVariance current previous nm) = 0"
    by (simp add: categoryVariance_def mkVariance_fields getOrZero_absent keys_categoryMap)
next
  show "\<forall>nm. nm \<notin> name ` set (expenseCategories previous) \<longrightarrow>
          v_previousValue (categoryVariance current previous nm) = 0"
    by (simp add: categoryVariance_def mkVariance_fields getOrZero_absent keys_categoryMap)
qed

theorem computeExpenseVariances_filtered_sorted_witness:
  "categoryVariance expenseCurrent expensePrevious ''Misc''
     \<in> set (computeExpenseVariances expenseCurrent expensePrevious)
   \<and> \<not> \<bar>v_percentChange (categoryVariance expenseCurrent expensePrevious ''Misc'')\<bar> < 5
   \<and> ''Misc'' \<notin> name ` set (expenseCategories expenseCurrent)
   \<and> v_currentValue (categoryVariance expenseCurrent expensePrevious ''Misc'') = 0
   \<and> ''Tools'' \<notin> name ` set (expenseCategories expensePrevious)
   \<and> v_previousValue (categoryVariance expenseCurrent expensePrevious ''Tools'') = 0"
proof -
  let ?c = expenseCurrent and ?p = expensePrevious
  have mem: "categoryVariance ?c ?p ''Misc'' \<in> set (computeExpenseVariances ?c ?p)"
    by (simp add: computeExpenseVariances_example)
  have absent_c: "''Misc'' \<notin> name ` set (expenseCategories ?c)"
    by (simp add: expenseCurrent_def zeroStatement_def emptyPeriod_def)
  have absent_p: "''Tools'' \<notin> name ` set (expenseCategories ?p)"
    by (simp add: expensePrevious_def zeroStatement_def emptyPeriod_def)
  note inst = computeExpenseVariances_filtered_sorted [of ?c ?p]
  from inst mem have "\<not> \<bar>v_percentChange (categoryVariance ?c ?p ''Misc'')\<bar> < 5"
    by blast
  moreover from inst absent_c have "v_currentValue (categoryVariance ?c ?p ''Misc'') = 0"
    by blast
  moreover from inst absent_p have "v_previousValue (categoryVariance ?c ?p ''Tools'') = 0"
    by blast
  ultimately show ?thesis
    using mem absent_c absent_p by blast
qed

section \<open>Issue synthesis: cap, root causes, order\<close>

lemma inv_push:
  "issuesInv n st \<Longrightarrow> rootCauseOf i \<notin> snd st \<Longrightarrow>
   issuesInv (Suc n) (fst st @ [i], insert (rootCauseOf i) (snd st))"
  by (auto simp: issuesInv_def)

lemma rootCause_fixed:
  "i_metric i = ''cash_runway'' \<Longrightarrow> rootCauseOf i = ''cash''"
  "i_metric i = ''expense_to_revenue_ratio'' \<Longrightarrow> rootCauseOf i = ''expense_revenue''"
  "i_metric i = ''gross_margin_trend'' \<Longrightarrow> rootCauseOf i = ''margin''"
  by (simp_all add: rootCauseOf_def)

lemma rootCause_anomaly: "i_metric i = ''anomaly_'' @ m \<Longrightarrow> rootCauseOf i = ''anomaly-'' @ m"
  by (simp add: rootCauseOf_def)


lemma inv_push_key:
  "issuesInv n st \<Longrightarrow> rootCauseOf i = k \<Longrightarrow> k \<notin> snd st \<Longrightarrow>
   issuesInv (Suc n) (fst st @ [i], insert k (snd st))"
  using inv_push [of n st i] by simp

lemma inv_Suc: "issuesInv n st \<Longrightarrow> issuesInv (Suc n) st"
  by (simp add: issuesInv_def)

lemma inv_cash:
  assumes "issuesInv 0 st"
  shows "issuesInv (Suc 0) (cashRunwayRule ratios st)"
proof -
  from assms have "''cash'' \<notin> snd st" by (auto simp: issuesInv_def)
  with assms show ?thesis
    by (simp add: cashRunwayRule_def inv_push_key inv_Suc rootCause_fixed split: option.splits)
qed

lemma inv_expense: "issuesInv n st \<Longrightarrow> issuesInv (Suc n) (expenseRevenueRule variances st)"
  by (simp add: expenseRevenueRule_def inv_push_key inv_Suc rootCause_fixed split: option.splits)

lemma inv_margin: "issuesInv n st \<Longrightarrow> issuesInv (Suc n) (marginRule trends st)"
  by (simp add: marginRule_def inv_push_key inv_Suc rootCause_fixed split: option.splits)

lemma inv_anomaly: "issuesInv n st \<Longrightarrow> issuesInv (Suc n) (anomalyRule anomaly st)"
  by (simp add: anomalyRule_def Let_def inv_push_key inv_Suc rootCause_anomaly)


lemma inv_fold: "issuesInv n st \<Longrightarrow> issuesInv (n + length as) (fold anomalyRule as st)"
proof (induction as arbitrary: n st)
  case Nil
  then show ?case by simp
next
  case (Cons a as)
  from Cons.IH [OF inv_anomaly [OF Cons.prems, of a]] show ?case by simp
qed

lemma inv_mono: "issuesInv n st \<Longrightarrow> n \<le> m \<Longrightarrow> issuesInv m st"
  by (simp add: issuesInv_def)

lemma collectIssues_rootCauses: "issuesInv 5 (collectIssues variances ratios trends anomalies)"
proof -
  have "issuesInv 0 ([], {})" by (simp add: issuesInv_def)
  then have "issuesInv (Suc 0) (cashRunwayRule ratios ([], {}))" by (rule inv_cash)
  then have "issuesInv (Suc (Suc 0)) (expenseRevenueRule variances (cashRunwayRule ratios ([], {})))"
    by (rule inv_expense)
  then have "issuesInv (Suc (Suc (Suc 0)))
      (marginRule trends (expenseRevenueRule variances (cashRunwayRule ratios ([], {}))))"
    by (rule inv_margin)
  then have "issuesInv (Suc (Suc (Suc 0)) + length (take 2 anomalies))
      (collectIssues variances ratios trends anomalies)"
    unfolding collectIssues_def by (rule inv_fold)
  then show ?thesis by (rule inv_mono) simp
qed

lemma issueCmp_le:
  "issueCmp a b \<le> 0 \<longleftrightarrow>
     severityOrder (i_severity a) < severityOrder (i_severity b)
     \<or> (i_severity a = i_severity b \<and> i_currentValue a \<ge> i_currentValue b)"
  by (cases "i_severity a"; cases "i_severity b") (simp_all add: issueCmp_def severityOrder_def)

lemma issueCmp_total: "issueCmp a b \<le> 0 \<or> issueCmp b a \<le> 0"
  by (cases "i_severity a"; cases "i_severity b") (auto simp: issueCmp_def severityOrder_def)

lemma issueCmp_trans: "issueCmp a b \<le> 0 \<Longrightarrow> issueCmp b c \<le> 0 \<Longrightarrow> issueCmp a c \<le> 0"
  by (cases "i_severity a"; cases "i_severity b"; cases "i_severity c")
     (simp_all add: issueCmp_def severityOrder_def)

lemma generateIssues_all:
  "generateIssues variances ratios trends anomalies cashPosition =
     sortBy issueCmp (fst (collectIssues variances ratios trends anomalies))"
  using collectIssues_rootCauses [of variances ratios trends anomalies]
  by (simp add: generateIssues_def issuesInv_def)

text \<open>
  Claim C2: for every input, \<open>generateIssues\<close> returns at most 5 issues, no two of
  them pushed under the same root-cause tag (their tags are exactly the final set
  \<open>rootCauses\<close>), ordered by severity critical, warning, info and, within one severity,
  by descending \<open>currentValue\<close>.
\<close>

theorem generateIssues_capped_distinct_sorted:
  "length (generateIssues variances ratios trends anomalies cashPosition) \<le> 5
   \<and> distinct (map rootCauseOf (generateIssues variances ratios trends anomalies cashPosition))
   \<and> rootCauseOf ` set (generateIssues variances ratios trends anomalies cashPosition)
        = snd (collectIssues variances ratios trends anomalies)
   \<and> sorted_wrt (\<lambda>a b. severityOrder (i_severity a) < severityOrder (i_severity b)
                     \<or> (i_severity a = i_severity b \<and> i_currentValue a \<ge> i_currentValue b))
        (generateIssues variances ratios trends anomalies cashPosition)"
proof -
  let ?st = "collectIssues variances ratios trends anomalies"
  have inv: "issuesInv 5 ?st" by (rule collectIssues_rootCauses)
  have "sorted_wrt (\<lambda>a b. issueCmp a b \<le> 0) (sortBy issueCmp (fst ?st))"
    by (rule sorted_sortBy) (rule issueCmp_total, rule issueCmp_trans)
  then have "sorted_wrt (\<lambda>a b. severityOrder (i_severity a) < severityOrder (i_severity b)
                     \<or> (i_severity a = i_severity b \<and> i_currentValue a \<ge> i_currentValue b))
        (sortBy issueCmp (fst ?st))"
    by (simp only: issueCmp_le)
  then show ?thesis
    using inv by (simp add: generateIssues_all issuesInv_def distinct_map_sortBy)
qed

section \<open>Issue synthesis: the individual rules\<close>

lemma shape_cash: "list_all issueShape (fst st) \<Longrightarrow> list_all issueShape (fst (cashRunwayRule ratios st))"
  by (simp add: cashRunwayRule_def issueShape_def split: option.splits)

lemma shape_expense: "list_all issueShape (fst st) \<Longrightarrow> list_all issueShape (fst (expenseRevenueRule variances st))"
  by (simp add: expenseRevenueRule_def issueShape_def split: option.splits)

lemma shape_margin: "list_all issueShape (fst st) \<Longrightarrow> list_all issueShape (fst (marginRule trends st))"
  by (simp add: marginRule_def issueShape_def split: option.splits)

lemma shape_anomaly: "list_all issueShape (fst st) \<Longrightarrow> list_all issueShape (fst (anomalyRule anomaly st))"
  by (simp add: anomalyRule_def issueShape_def Let_def)

lemma shape_fold: "list_all issueShape (fst st) \<Longrightarrow> list_all issueShape (fst (fold anomalyRule as st))"
  by (induction as arbitrary: st) (simp_all add: shape_anomaly)

lemma collectIssues_shape: "list_all issueShape (fst (collectIssues variances ratios trends anomalies))"
  unfolding collectIssues_def
  by (intro shape_fold shape_margin shape_expense shape_cash) simp

lemma shape_ids:
  assumes "issueShape i"
  shows "i_id i = ''iss-cash-runway'' \<longleftrightarrow> rootCauseOf i = ''cash''"
    and "i_metric i = ''cash_runway'' \<longleftrightarrow> rootCauseOf i = ''cash''"
    and "i_id i = ''iss-margin-decline'' \<longleftrightarrow> rootCauseOf i = ''margin''"
    and "i_metric i = ''gross_margin_trend'' \<longleftrightarrow> rootCauseOf i = ''margin''"
proof -
  consider
    (cash) "i_id i = ''iss-cash-runway''" "i_metric i = ''cash_runway''"
  | (expense) "i_id i = ''iss-expense-revenue''" "i_metric i = ''expense_to_revenue_ratio''"
  | (margin) "i_id i = ''iss-margin-decline''" "i_metric i = ''gross_margin_trend''"
  | (anomaly) "i_id i = ''iss-anomaly-'' @ replaceSpaces False (toLowerCase (drop 8 (i_metric i)))"
      "take 8 (i_metric i) = ''anomaly_''"
    using assms unfolding issueShape_def by blast
  then have "(i_id i = ''iss-cash-runway'' \<longleftrightarrow> rootCauseOf i = ''cash'')
      \<and> (i_metric i = ''cash_runway'' \<longleftrightarrow> rootCauseOf i = ''cash'')
      \<and> (i_id i = ''iss-margin-decline'' \<longleftrightarrow> rootCauseOf i = ''margin'')
      \<and> (i_metric i = ''gross_margin_trend'' \<longleftrightarrow> rootCauseOf i = ''margin'')"
  proof cases
    case cash
    then show ?thesis by (simp add: rootCauseOf_def)
  next
    case expense
    then show ?thesis by (simp add: rootCauseOf_def)
  next
    case margin
    then show ?thesis by (simp add: rootCauseOf_def)
  next
    case anomaly
    from anomaly(2) have ne: "i_metric i \<noteq> ''cash_runway''" "i_metric i \<noteq> ''expense_to_revenue_ratio''"
      "i_metric i \<noteq> ''gross_margin_trend''"
      by auto
    with anomaly(1) show ?thesis by (simp add: rootCauseOf_def)
  qed
  then show "i_id i = ''iss-cash-runway'' \<longleftrightarrow> rootCauseOf i = ''cash''"
    and "i_metric i = ''cash_runway'' \<longleftrightarrow> rootCauseOf i = ''cash''"
    and "i_id i = ''iss-margin-decline'' \<longleftrightarrow> rootCauseOf i = ''margin''"
    and "i_metric i = ''gross_margin_trend'' \<longleftrightarrow> rootCauseOf i = ''margin''"
    by blast+
qed

lemma tags_cash: "k \<noteq> ''cash'' \<Longrightarrow> k \<in> snd (cashRunwayRule ratios st) \<longleftrightarrow> k \<in> snd st"
  by (simp add: cashRunwayRule_def split: option.splits)

lemma tags_expense: "k \<noteq> ''expense_revenue'' \<Longrightarrow> k \<in> snd (expenseRevenueRule variances st) \<longleftrightarrow> k \<in> snd st"
  by (simp add: expenseRevenueRule_def split: option.splits)

lemma tags_margin: "k \<noteq> ''margin'' \<Longrightarrow> k \<in> snd (marginRule trends st) \<longleftrightarrow> k \<in> snd st"
  by (simp add: marginRule_def split: option.splits)

lemma tags_anomaly: "take 8 k \<noteq> ''anomaly-'' \<Longrightarrow> k \<in> snd (anomalyRule anomaly st) \<longleftrightarrow> k \<in> snd st"
  by (auto simp: anomalyRule_def Let_def)

lemma tags_fold: "take 8 k \<noteq> ''anomaly-'' \<Longrightarrow> k \<in> snd (fold anomalyRule as st) \<longleftrightarrow> k \<in> snd st"
  by (induction as arbitrary: st) (simp_all add: tags_anomaly)

lemma issues_anomaly_mono: "set (fst st) \<subseteq> set (fst (anomalyRule anomaly st))"
  by (auto simp: anomalyRule_def Let_def)

lemma issues_fold_mono: "set (fst st) \<subseteq> set (fst (fold anomalyRule as st))"
proof (induction as arbitrary: st)
  case Nil
  show ?case by simp
next
  case (Cons a as)
  have "set (fst st) \<subseteq> set (fst (anomalyRule a st))" by (rule issues_anomaly_mono)
  also have "\<dots> \<subseteq> set (fst (fold anomalyRule as (anomalyRule a st)))" by (rule Cons.IH)
  finally show ?case by simp
qed

lemma cash_tag_iff:
  "''cash'' \<in> snd (collectIssues variances ratios trends anomalies) \<longleftrightarrow>
     (\<exists>cashRunway. find (\<lambda>r. r_name r = ''Cash Runway'') ratios = Some cashRunway \<and> r_value cashRunway < 3)"
  by (simp add: collectIssues_def tags_fold tags_margin tags_expense)
     (simp add: cashRunwayRule_def split: option.splits)

lemma margin_fires:
  assumes "find (\<lambda>t. t_metric t = ''Gross Profit'' \<and> t_direction t = Decreasing) trends = Some marginTrend"
    and "t_periods marginTrend \<ge> 2"
  shows "\<lparr> i_id = ''iss-margin-decline'',
           i_severity = (if t_periods marginTrend \<ge> 3 then Warning else Info),
           i_metric = ''gross_margin_trend'',
           i_currentValue = t_magnitude marginTrend,
           i_threshold = None,
           i_periodsActive = t_periods marginTrend \<rparr>
         \<in> set (fst (collectIssues variances ratios trends anomalies))"
proof -
  let ?st = "expenseRevenueRule variances (cashRunwayRule ratios ([], {}))"
  have "''margin'' \<notin> snd ?st"
    by (simp add: tags_expense tags_cash)
  with assms have "\<lparr> i_id = ''iss-margin-decline'',
           i_severity = (if t_periods marginTrend \<ge> 3 then Warning else Info),
           i_metric = ''gross_margin_trend'',
           i_currentValue = t_magnitude marginTrend,
           i_threshold = None,
           i_periodsActive = t_periods marginTrend \<rparr> \<in> set (fst (marginRule trends ?st))"
    by (simp add: marginRule_def)
  then show ?thesis
    unfolding collectIssues_def using issues_fold_mono by blast
qed

lemma filter_unique:
  "distinct (map f xs) \<Longrightarrow> x \<in> set xs \<Longrightarrow> filter (\<lambda>y. f y = f x) xs = [x]"
proof (induction xs)
  case Nil
  then show ?case by simp
next
  case (Cons a xs)
  show ?case
  proof (cases "a = x")
    case True
    with Cons.prems have "filter (\<lambda>y. f y = f x) xs = []"
      by (auto simp: filter_empty_conv) (metis imageI)
    with True show ?thesis by simp
  next
    case False
    with Cons show ?thesis by auto
  qed
qed

lemma countSteps_down:
  "stepsDown vs \<Longrightarrow> countSteps vs (u, d) = (u, d + (length vs - 1))"
proof (induction vs "(u, d)" arbitrary: u d rule: countSteps.induct)
  case (1 a b rest ups downs)
  from "1.prems" have step: "b - a < - (\<bar>a\<bar> * 0.03)" and rest: "stepsDown (b # rest)"
    by simp_all
  have "0 \<le> \<bar>a\<bar> * 0.03" by simp
  with step have "\<not> b - a > \<bar>a\<bar> * 0.03" by linarith
  with step "1.hyps" [of "b - a" "\<bar>a\<bar> * 0.03" ups "downs + 1"] rest show ?case
    by (simp add: Let_def)
qed simp_all

lemma detectDirection_down:
  assumes "stepsDown vs" "length vs \<ge> 2"
  shows "detectDirection vs = Decreasing"
proof -
  from assms(2) have pos: "real_of_int (int (length vs) - 1) \<ge> 1" by simp
  have "real (length vs - 1) = real_of_int (int (length vs) - 1)"
    using assms(2) by (simp add: of_nat_diff)
  with pos show ?thesis
    using countSteps_down [OF assms(1), of 0 0] by (simp add: detectDirection_def)
qed

lemma detectTrends_periods:
  "t \<in> set (detectTrends periods) \<Longrightarrow> t_periods t = length periods \<and> length periods \<ge> 2"
  by (auto simp: detectTrends_def trendOf_def trendMetrics_def Let_def split: if_splits)

lemma detectTrends_grossProfit:
  assumes "length periods \<ge> 2" "detectDirection (map grossProfit periods) = Decreasing"
  shows "\<exists>t \<in> set (detectTrends periods). t_metric t = ''Gross Profit'' \<and> t_direction t = Decreasing
           \<and> t_periods t = length periods"
  using assms by (simp add: detectTrends_def trendOf_def trendMetrics_def Let_def)

lemma find_append: "find P (xs @ ys) = (case find P xs of None \<Rightarrow> find P ys | Some x \<Rightarrow> Some x)"
  by (induction xs) auto

lemma set_generateIssues:
  "set (generateIssues variances ratios trends anomalies cashPosition) =
     set (fst (collectIssues variances ratios trends anomalies))"
  by (simp add: generateIssues_all)

lemma generateIssues_shape:
  "i \<in> set (generateIssues variances ratios trends anomalies cashPosition) \<Longrightarrow> issueShape i"
  using collectIssues_shape [of variances ratios trends anomalies]
  by (simp add: set_generateIssues list_all_iff)

lemma generateIssues_tags:
  "rootCauseOf ` set (generateIssues variances ratios trends anomalies cashPosition) =
     snd (collectIssues variances ratios trends anomalies)"
  using collectIssues_rootCauses [of variances ratios trends anomalies]
  by (simp add: set_generateIssues issuesInv_def)

lemma generateIssues_distinct:
  "distinct (map rootCauseOf (generateIssues variances ratios trends anomalies cashPosition))"
  using collectIssues_rootCauses [of variances ratios trends anomalies]
  by (simp add: generateIssues_all issuesInv_def distinct_map_sortBy)

lemma margin_issue_unique:
  assumes "find (\<lambda>t. t_metric t = ''Gross Profit'' \<and> t_direction t = Decreasing) trends = Some marginTrend"
    and "t_periods marginTrend \<ge> 2"
  shows "filter (\<lambda>i. i_id i = ''iss-margin-decline'')
           (generateIssues variances ratios trends anomalies cashPosition) = [marginIssue marginTrend]"
proof -
  let ?issues = "generateIssues variances ratios trends anomalies cashPosition"
  have mem: "marginIssue marginTrend \<in> set ?issues"
    using margin_fires [OF assms] by (simp add: set_generateIssues marginIssue_def)
  have tag: "rootCauseOf (marginIssue marginTrend) = ''margin''"
    by (simp add: rootCauseOf_def marginIssue_def)
  have "filter (\<lambda>i. i_id i = ''iss-margin-decline'') ?issues =
        filter (\<lambda>i. rootCauseOf i = rootCauseOf (marginIssue marginTrend)) ?issues"
    by (rule filter_cong) (simp_all add: tag shape_ids(3) generateIssues_shape)
  also have "\<dots> = [marginIssue marginTrend]"
    using generateIssues_distinct mem by (rule filter_unique)
  finally show ?thesis .
qed

section \<open>Margin decline\<close>

text \<open>
  Claim C6: whenever \<open>detectTrends\<close> reports a decreasing Gross Profit trend over at least
  2 periods, \<open>generateIssues\<close> on these trends returns exactly one issue with id
  \<open>iss-margin-decline\<close>; its root cause is \<open>margin\<close> and its severity is warning when the
  trend's \<open>periods\<close> is at least 3, info otherwise. Five statements whose gross profit falls
  at every step by more than 3 percent give a decreasing Gross Profit trend with
  \<open>periods = 5\<close> and a margin-decline issue of severity warning.
\<close>

theorem margin_decline_issue:
  "(\<forall>t \<in> set (detectTrends periods).
      t_metric t = ''Gross Profit'' \<and> t_direction t = Decreasing \<and> t_periods t \<ge> 2 \<longrightarrow>
        length (filter (\<lambda>i. i_id i = ''iss-margin-decline'')
          (generateIssues variances ratios (detectTrends periods) anomalies cashPosition)) = 1
        \<and> (\<forall>i \<in> set (generateIssues variances ratios (detectTrends periods) anomalies cashPosition).
              i_id i = ''iss-margin-decline'' \<longrightarrow>
                rootCauseOf i = ''margin''
                \<and> i_severity i = (if t_periods t \<ge> 3 then Warning else Info)))
   \<and> (length periods = 5 \<and> stepsDown (map grossProfit periods) \<longrightarrow>
        (\<exists>t \<in> set (detectTrends periods).
            t_metric t = ''Gross Profit'' \<and> t_direction t = Decreasing \<and> t_periods t = 5)
        \<and> (\<exists>i \<in> set (generateIssues variances ratios (detectTrends periods) anomalies cashPosition).
            i_id i = ''iss-margin-decline'' \<and> i_severity i = Warning))"
proof -
  let ?P = "\<lambda>t. t_metric t = ''Gross Profit'' \<and> t_direction t = Decreasing"
  let ?issues = "generateIssues variances ratios (detectTrends periods) anomalies cashPosition"
  have general: "length (filter (\<lambda>i. i_id i = ''iss-margin-decline'') ?issues) = 1
        \<and> (\<forall>i \<in> set ?issues. i_id i = ''iss-margin-decline'' \<longrightarrow>
              rootCauseOf i = ''margin''
              \<and> i_severity i = (if t_periods t \<ge> 3 then Warning else Info))"
    if t: "t \<in> set (detectTrends periods)" "?P t" for t
  proof -
    from t have "find ?P (detectTrends periods) \<noteq> None"
      by (auto simp: find_None_iff)
    then obtain mt where mt: "find ?P (detectTrends periods) = Some mt" by blast
    then have "mt \<in> set (detectTrends periods)"
      by (auto simp: find_Some_iff)
    with t(1) have per: "t_periods mt = t_periods t" "t_periods mt \<ge> 2"
      using detectTrends_periods by simp_all
    have flt: "filter (\<lambda>i. i_id i = ''iss-margin-decline'') ?issues = [marginIssue mt]"
      using mt per(2) by (rule margin_issue_unique)
    have "i = marginIssue mt" if "i \<in> set ?issues" "i_id i = ''iss-margin-decline''" for i
    proof -
      from that have "i \<in> set (filter (\<lambda>i. i_id i = ''iss-margin-decline'') ?issues)" by simp
      then show ?thesis by (simp add: flt)
    qed
    moreover have "rootCauseOf (marginIssue mt) = ''margin''"
      by (simp add: rootCauseOf_def marginIssue_def)
    moreover have "i_severity (marginIssue mt) = (if t_periods t \<ge> 3 then Warning else Info)"
      by (simp add: marginIssue_def per(1))
    ultimately show ?thesis
      using flt by auto
  qed
  have scenario: "(\<exists>t \<in> set (detectTrends periods).
            t_metric t = ''Gross Profit'' \<and> t_direction t = Decreasing \<and> t_periods t = 5)
        \<and> (\<exists>i \<in> set ?issues. i_id i = ''iss-margin-decline'' \<and> i_severity i = Warning)"
    if five: "length periods = 5" and down: "stepsDown (map grossProfit periods)"
  proof -
    from five down have "detectDirection (map grossProfit periods) = Decreasing"
      by (intro detectDirection_down) simp_all
    with five obtain t where t: "t \<in> set (detectTrends periods)" "?P t" "t_periods t = 5"
      using detectTrends_grossProfit [of periods] by auto
    from general [OF t(1,2)] t(3) have one: "length (filter (\<lambda>i. i_id i = ''iss-margin-decline'') ?issues) = 1"
      and sev: "\<forall>i \<in> set ?issues. i_id i = ''iss-margin-decline'' \<longrightarrow> i_severity i = Warning"
      by simp_all
    from one obtain i where "i \<in> set (filter (\<lambda>i. i_id i = ''iss-margin-decline'') ?issues)"
      by (cases "filter (\<lambda>i. i_id i = ''iss-margin-decline'') ?issues") auto
    then have "i \<in> set ?issues" "i_id i = ''iss-margin-decline''" by simp_all
    with sev t show ?thesis by blast
  qed
  from general scenario show ?thesis by blast
qed

theorem margin_decline_issue_witness:
  "length fivePeriods = 5 \<and> stepsDown (map grossProfit fivePeriods)
   \<and> length (filter (\<lambda>i. i_id i = ''iss-margin-decline'')
        (generateIssues [] [] (detectTrends fivePeriods) [] None)) = 1"
proof -
  have hyps: "length fivePeriods = 5 \<and> stepsDown (map grossProfit fivePeriods)"
    by (simp add: fivePeriods_def zeroStatement_def emptyPeriod_def)
  note inst = margin_decline_issue [of fivePeriods "[]" "[]" "[]" None]
  from inst hyps obtain t where t: "t \<in> set (detectTrends fivePeriods)"
      "t_metric t = ''Gross Profit''" "t_direction t = Decreasing" "t_periods t = 5"
    by blast
  then have "t_metric t = ''Gross Profit'' \<and> t_direction t = Decreasing \<and> t_periods t \<ge> 2"
    by simp
  with inst t(1) have "length (filter (\<lambda>i. i_id i = ''iss-margin-decline'')
        (generateIssues [] [] (detectTrends fivePeriods) [] None)) = 1"
    by blast
  with hyps show ?thesis by blast
qed

section \<open>Cash runway at the boundary\<close>

text \<open>
  Claim C4: with a cash balance of 15,000, expenses of 20,000 and revenue of 15,000 the
  ratio Cash Runway is emitted with value 3.0 and trend stable, and \<open>generateIssues\<close>
  on these ratios returns no cash-runway issue, whatever the other inputs.
\<close>

theorem cash_runway_boundary:
  assumes "totalExpenses current = 20000" "totalRevenue current = 15000" "currentBalance cp = 15000"
  shows "find (\<lambda>r. r_name r = ''Cash Runway'') (computeRatios current previous (Some cp)) =
     Some \<lparr> r_name = ''Cash Runway'', r_value = 3, r_previousValue = None, r_trend = Steady,
            r_description = ''Months your cash will last at current spending'' \<rparr>
   \<and> (\<forall>i \<in> set (generateIssues variances (computeRatios current previous (Some cp)) trends anomalies (Some cp)).
         i_id i \<noteq> ''iss-cash-runway'' \<and> i_metric i \<noteq> ''cash_runway'' \<and> rootCauseOf i \<noteq> ''cash'')"
proof -
  let ?ratios = "computeRatios current previous (Some cp)"
  have runway: "find (\<lambda>r. r_name r = ''Cash Runway'') ?ratios =
     Some \<lparr> r_name = ''Cash Runway'', r_value = 3, r_previousValue = None, r_trend = Steady,
            r_description = ''Months your cash will last at current spending'' \<rparr>"
    using assms
    by (simp add: computeRatios_def grossMarginRatio_def profitMarginRatio_def
        expenseRatioRatio_def revenueGrowthRatios_def cashRunwayRatios_def Let_def find_append
        round1_def mathRound_def split: option.splits)
  then have "''cash'' \<notin> snd (collectIssues variances ?ratios trends anomalies)"
    by (simp add: cash_tag_iff)
  then have notag: "''cash'' \<notin> rootCauseOf ` set (generateIssues variances ?ratios trends anomalies (Some cp))"
    by (simp only: generateIssues_tags not_False_eq_True)
  have "i_id i \<noteq> ''iss-cash-runway'' \<and> i_metric i \<noteq> ''cash_runway'' \<and> rootCauseOf i \<noteq> ''cash''"
    if i: "i \<in> set (generateIssues variances ?ratios trends anomalies (Some cp))" for i
  proof -
    from i notag have "rootCauseOf i \<noteq> ''cash''" by (metis imageI)
    moreover from i have "issueShape i" by (rule generateIssues_shape)
    ultimately show ?thesis by (simp only: shape_ids(1,2) simp_thms)
  qed
  with runway show ?thesis by blast
qed

lemma slug_rent: "replaceSpaces False (toLowerCase ''Office Rent'') = ''office-rent''"
  by code_simp

lemma anomalyRule_rent: "anomalyRule rentAnomaly ([], {}) = ([rentIssue], {''anomaly-Office Rent''})"
  by (simp add: anomalyRule_def rentAnomaly_def rentIssue_def slug_rent Let_def)


theorem cash_runway_boundary_witness:
  "find (\<lambda>r. r_name r = ''Cash Runway'') (computeRatios runwayCurrent None (Some runwayCash)) =
     Some \<lparr> r_name = ''Cash Runway'', r_value = 3, r_previousValue = None, r_trend = Steady,
            r_description = ''Months your cash will last at current spending'' \<rparr>
   \<and> generateIssues [] (computeRatios runwayCurrent None (Some runwayCash)) [] [rentAnomaly] (Some runwayCash)
       = [rentIssue]
   \<and> i_id rentIssue \<noteq> ''iss-cash-runway''"
proof -
  have hyps: "totalExpenses runwayCurrent = 20000" "totalRevenue runwayCurrent = 15000"
    "currentBalance runwayCash = 15000"
    by (simp_all add: runwayCurrent_def runwayCash_def zeroStatement_def emptyPeriod_def)
  note inst = cash_runway_boundary [OF hyps, of None "[]" "[]" "[rentAnomaly]"]
  from inst have runway:
    "find (\<lambda>r. r_name r = ''Cash Runway'') (computeRatios runwayCurrent None (Some runwayCash)) =
       Some \<lparr> r_name = ''Cash Runway'', r_value = 3, r_previousValue = None, r_trend = Steady,
              r_description = ''Months your cash will last at current spending'' \<rparr>"
    by (rule conjunct1)
  have "collectIssues [] (computeRatios runwayCurrent None (Some runwayCash)) [] [rentAnomaly]
          = ([rentIssue], {''anomaly-Office Rent''})"
    by (simp add: collectIssues_def cashRunwayRule_def runway expenseRevenueRule_def marginRule_def
        anomalyRule_rent)
  then have issues: "generateIssues [] (computeRatios runwayCurrent None (Some runwayCash)) [] [rentAnomaly]
      (Some runwayCash) = [rentIssue]"
    by (simp add: generateIssues_def)
  then have "rentIssue \<in> set (generateIssues [] (computeRatios runwayCurrent None (Some runwayCash)) []
      [rentAnomaly] (Some runwayCash))"
    by simp
  with inst have "i_id rentIssue \<noteq> ''iss-cash-runway''" by blast
  with runway issues show ?thesis by blast
qed

section \<open>Revenue growth\<close>

lemma ratio_names [simp]:
  "r_name (grossMarginRatio current previous) = ''Gross Margin''"
  "r_name (profitMarginRatio current previous) = ''Profit Margin''"
  "r_name (expenseRatioRatio current previous) = ''Expense Ratio''"
  by (simp_all add: grossMarginRatio_def profitMarginRatio_def expenseRatioRatio_def Let_def)







lemma growth_example:
  "revenueGrowthRatios (revenueOnly 110) (Some (revenueOnly 100)) =
     [ \<lparr> r_name = ''Revenue Growth'', r_value = 10, r_previousValue = None, r_trend = Improving,
         r_description = ''How this month compares to last month'' \<rparr> ]"
  by (simp add: revenueGrowthRatios_def revenueOnly_def zeroStatement_def emptyPeriod_def
      round1_def mathRound_def)



section \<open>A previous ratio of exactly zero\<close>

text \<open>
  Claim C10: when a previous period with positive revenue is supplied and the previous
  value computed for a ratio is exactly 0, the emitted ratio has no \<open>previousValue\<close>;
  for the Expense Ratio the trend is then stable whatever the current value is. The three
  ratios are the first three entries of the result, in the order Gross Margin, Profit
  Margin, Expense Ratio.
\<close>

theorem zero_previous_ratio_omitted:
  assumes "previous = Some p" and "totalRevenue p > 0"
  shows "r_name (computeRatios current previous cashPosition ! 0) = ''Gross Margin''
     \<and> r_name (computeRatios current previous cashPosition ! 1) = ''Profit Margin''
     \<and> r_name (computeRatios current previous cashPosition ! 2) = ''Expense Ratio''
     \<and> ((grossProfit p / totalRevenue p) * 100 = 0 \<longrightarrow>
           r_previousValue (computeRatios current previous cashPosition ! 0) = None)
     \<and> ((netIncome p / totalRevenue p) * 100 = 0 \<longrightarrow>
           r_previousValue (computeRatios current previous cashPosition ! 1) = None)
     \<and> ((totalExpenses p / totalRevenue p) * 100 = 0 \<longrightarrow>
           r_previousValue (computeRatios current previous cashPosition ! 2) = None
           \<and> r_trend (computeRatios current previous cashPosition ! 2) = Steady)"
  using assms
  by (simp add: computeRatios_def grossMarginRatio_def profitMarginRatio_def expenseRatioRatio_def
      roundIfTruthy_def Let_def)

lemma expenseRatio_example:
  "r_value (computeRatios halfSpent (Some (revenueOnly 100)) None ! 2) = 50"
  by (simp add: computeRatios_def expenseRatioRatio_def halfSpent_def revenueOnly_def
      zeroStatement_def emptyPeriod_def round1_def mathRound_def Let_def)

theorem zero_previous_ratio_omitted_witness:
  "r_previousValue (computeRatios halfSpent (Some (revenueOnly 100)) None ! 0) = None
   \<and> r_previousValue (computeRatios halfSpent (Some (revenueOnly 100)) None ! 2) = None
   \<and> r_trend (computeRatios halfSpent (Some (revenueOnly 100)) None ! 2) = Steady
   \<and> r_value (computeRatios halfSpent (Some (revenueOnly 100)) None ! 2) = 50"
proof -
  have pos: "totalRevenue (revenueOnly 100) > 0"
    by (simp add: revenueOnly_def zeroStatement_def emptyPeriod_def)
  have zero: "(grossProfit (revenueOnly 100) / totalRevenue (revenueOnly 100)) * 100 = 0"
    "(totalExpenses (revenueOnly 100) / totalRevenue (revenueOnly 100)) * 100 = 0"
    by (simp_all add: revenueOnly_def zeroStatement_def emptyPeriod_def)
  note inst = zero_previous_ratio_omitted [OF refl pos, of halfSpent None]
  from inst zero(1) have "r_previousValue (computeRatios halfSpent (Some (revenueOnly 100)) None ! 0) = None"
    by blast
  moreover from inst zero(2) have
    "r_previousValue (computeRatios halfSpent (Some (revenueOnly 100)) None ! 2) = None
     \<and> r_trend (computeRatios halfSpent (Some (revenueOnly 100)) None ! 2) = Steady"
    by blast
  ultimately show ?thesis
    using expenseRatio_example by blast
qed

section \<open>Explanation gateway: a failed call costs the action only\<close>

lemma callAI_actionOf: "callAI gen k = Inr (actionOf gen k)"
  by (simp add: callAI_def actionOf_def split: sum.splits)

lemma varianceStep_eq:
  "varianceStep gen data (k, ins) =
     Inr (if length (significantVariances data) > 0
          then (k + 1, ins @ [varianceInsight (significantVariances data) (actionOf gen k)])
          else (k, ins))"
  by (simp add: varianceStep_def callAI_actionOf)

lemma trendSteps_eq:
  "trendSteps gen ts (k, ins) =
     Inr (k + length ts, ins @ map (\<lambda>j. trendInsight (ts ! j) (actionOf gen (k + j))) [0 ..< length ts])"
proof (induction ts arbitrary: k ins)
  case Nil
  show ?case by simp
next
  case (Cons t ts)
  have "map (\<lambda>j. trendInsight ((t # ts) ! j) (actionOf gen (k + j))) [0 ..< length (t # ts)]
      = trendInsight t (actionOf gen k)
        # map (\<lambda>j. trendInsight (ts ! j) (actionOf gen (Suc k + j))) [0 ..< length ts]"
    by (simp add: upt_rec [of 0] map_Suc_upt [symmetric] del: upt_Suc)
  then show ?case by (simp add: callAI_actionOf Cons.IH)
qed

lemma generate_eq:
  "generateInsightsFromMetrics gen data =
     Inr (aiInsights gen data @ map anomalyInsight (take 2 (d_anomalies data)) @ healthInsights (d_ratios data))"
  by (simp add: generateInsightsFromMetrics_def varianceStep_eq trendSteps_eq aiInsights_def)

lemma length_aiInsights: "length (aiInsights gen data) = aiCalls data"
  by (simp add: aiInsights_def aiCalls_def)

lemma aiInsights_action:
  assumes "k < aiCalls data"
  shows "ins_action (aiInsights gen data ! k) = actionOf gen k"
proof (cases "length (significantVariances data) > 0")
  case True
  show ?thesis
  proof (cases k)
    case 0
    with True show ?thesis by (simp add: aiInsights_def varianceInsight_def)
  next
    case (Suc j)
    with True assms have "j < length (take 2 (d_trends data))" by (simp add: aiCalls_def)
    with True Suc show ?thesis by (simp add: aiInsights_def trendInsight_def del: length_take)
  qed
next
  case False
  with assms have "k < length (take 2 (d_trends data))" by (simp add: aiCalls_def)
  with False show ?thesis by (simp add: aiInsights_def trendInsight_def del: length_take)
qed

lemma aiInsights_withoutAction:
  "map withoutAction (aiInsights gen data) = map withoutAction (aiInsights gen' data)"
  by (simp add: aiInsights_def withoutAction_def varianceInsight_def trendInsight_def)

text \<open>
  Claim C1: for every outcome of the text-generation calls and every input,
  \<open>generateInsightsFromMetrics\<close> returns a list and raises nothing; the list is the one
  returned under any other outcome of the calls (in particular under success of all of
  them) up to the \<open>action\<close> fields; and the insight made with the \<open>k\<close>-th call has no
  \<open>action\<close> when that call threw and the trimmed text when it returned.
\<close>

theorem insights_survive_generation_failure:
  "\<exists>ins. generateInsightsFromMetrics gen data = Inr ins
     \<and> (\<forall>gen'. \<exists>ins'. generateInsightsFromMetrics gen' data = Inr ins'
            \<and> map withoutAction ins' = map withoutAction ins)
     \<and> (\<forall>k < aiCalls data.
            ins_action (ins ! k) = (case gen k of Inl e \<Rightarrow> None | Inr text \<Rightarrow> Some (trim text)))"
proof -
  let ?rest = "map anomalyInsight (take 2 (d_anomalies data)) @ healthInsights (d_ratios data)"
  have "\<forall>k < aiCalls data. ins_action ((aiInsights gen data @ ?rest) ! k) = actionOf gen k"
    by (simp add: nth_append length_aiInsights aiInsights_action)
  moreover have "\<forall>gen'. map withoutAction (aiInsights gen' data @ ?rest)
      = map withoutAction (aiInsights gen data @ ?rest)"
    using aiInsights_withoutAction by simp
  ultimately show ?thesis
    by (simp add: generate_eq actionOf_def)
qed

lemma sig_scenario: "significantVariances scenarioData = computeVariances (revenueOnly 130000) (revenueOnly 100000)"
  by (simp add: significantVariances_def scenarioData_def computeVariances_def headlineMetrics_def
      mkVariance_def revenueOnly_def zeroStatement_def emptyPeriod_def)

lemma trim_ex: "trim '' Raise prices. '' = ''Raise prices.''"
  by (simp add: trim_def isSpace_def)

lemma scenario_eval:
  "generateInsightsFromMetrics scenarioGen scenarioData =
     Inr [ \<lparr> ins_type = VarianceInsight, ins_confidence = High, ins_action = Some ''Raise prices.'',
             ins_severity = None, ins_promptVersion = ''v1.0'', ins_isStale = False \<rparr>,
           \<lparr> ins_type = TrendInsight, ins_confidence = High, ins_action = None,
             ins_severity = None, ins_promptVersion = ''v1.0'', ins_isStale = False \<rparr> ]"
proof -
  have vs: "computeVariances (revenueOnly 130000) (revenueOnly 100000) =
     [ \<lparr> v_metric = ''Revenue'', v_currentValue = 130000, v_previousValue = 100000,
         v_absoluteChange = 30000, v_percentChange = 30, v_direction = Up,
         v_significance = High \<rparr> ]"
    by (simp add: computeVariances_def headlineMetrics_def mkVariance_def round1_def mathRound_def
        revenueOnly_def zeroStatement_def emptyPeriod_def)
  have sig: "significantVariances scenarioData =
     [ \<lparr> v_metric = ''Revenue'', v_currentValue = 130000, v_previousValue = 100000,
         v_absoluteChange = 30000, v_percentChange = 30, v_direction = Up,
         v_significance = High \<rparr> ]"
    by (simp add: significantVariances_def scenarioData_def vs)
  have c0: "callAI scenarioGen 0 = Inr (Some ''Raise prices.'')"
    by (simp add: callAI_def scenarioGen_def trim_def isSpace_def)
  have c1: "callAI scenarioGen (Suc 0) = Inr None"
    by (simp add: callAI_def scenarioGen_def)
  have v: "varianceStep scenarioGen scenarioData (0, []) =
      Inr (Suc 0, [ \<lparr> ins_type = VarianceInsight, ins_confidence = High, ins_action = Some ''Raise prices.'',
             ins_severity = None, ins_promptVersion = ''v1.0'', ins_isStale = False \<rparr> ])"
    by (simp add: varianceStep_def sig c0 varianceInsight_def PROMPT_VERSION_def)
  show ?thesis
    by (simp add: generateInsightsFromMetrics_def v)
       (simp add: scenarioData_def c1 trendInsight_def PROMPT_VERSION_def healthInsights_def)
qed

lemma aiCalls_scenario: "aiCalls scenarioData = 2"
proof -
  have "length (significantVariances scenarioData) = 1"
    by (simp add: significantVariances_def scenarioData_def computeVariances_def headlineMetrics_def
        mkVariance_def revenueOnly_def zeroStatement_def emptyPeriod_def)
  then show ?thesis by (simp add: aiCalls_def scenarioData_def)
qed

theorem insights_survive_generation_failure_witness:
  "\<exists>ins. generateInsightsFromMetrics scenarioGen scenarioData = Inr ins
     \<and> map ins_type ins = [VarianceInsight, TrendInsight]
     \<and> ins_action (ins ! 0) = Some ''Raise prices.''
     \<and> ins_action (ins ! 1) = None
     \<and> scenarioGen 1 = Inl (Exn ''timeout'')
     \<and> 1 < aiCalls scenarioData"
proof -
  from insights_survive_generation_failure [of scenarioGen scenarioData] obtain ins where
    ins: "generateInsightsFromMetrics scenarioGen scenarioData = Inr ins"
    and act: "\<forall>k < aiCalls scenarioData.
            ins_action (ins ! k) = (case scenarioGen k of Inl e \<Rightarrow> None | Inr text \<Rightarrow> Some (trim text))"
    by blast
  have calls: "1 < aiCalls scenarioData" by (simp add: aiCalls_scenario)
  have fail: "scenarioGen 1 = Inl (Exn ''timeout'')" by (simp add: scenarioGen_def)
  from act calls have
    "ins_action (ins ! 1) = (case scenarioGen 1 of Inl e \<Rightarrow> None | Inr text \<Rightarrow> Some (trim text))"
    by blast
  then have none: "ins_action (ins ! 1) = None" by (simp only: fail sum.case)
  from ins have types: "map ins_type ins = [VarianceInsight, TrendInsight]"
    and first: "ins_action (ins ! 0) = Some ''Raise prices.''"
    by (auto simp: scenario_eval)
  show ?thesis
    by (intro exI [of _ ins] conjI) (rule ins types first none fail calls)+
qed

section \<open>Detectors on too little data\<close>

lemma checkCategory_few:
  "length (historicalValues historicalPeriods (name category)) < 2 \<Longrightarrow>
   checkCategory historicalPeriods category = []"
  by (simp add: checkCategory_def Let_def)

lemma checkCategory_member:
  "a \<in> set (checkCategory historicalPeriods category) \<Longrightarrow>
   a_metric a = name category \<and> length (historicalValues historicalPeriods (name category)) \<ge> 2"
  by (auto simp: checkCategory_def Let_def split: if_splits)

text \<open>
  Claim C8: with fewer than 2 periods \<open>detectTrends\<close> returns the empty list, with fewer
  than 3 periods \<open>detectAnomalies\<close> returns the empty list, and a category of the latest
  period with fewer than 2 observations in the earlier periods yields no anomaly: its
  iteration pushes nothing, and every anomaly returned is for a category name with at least
  2 earlier observations. Both functions are total: no input makes them raise.
\<close>

theorem detectors_need_enough_periods:
  "(length periods < 2 \<longrightarrow> detectTrends periods = [])
   \<and> (length periods < 3 \<longrightarrow> detectAnomalies periods = [])
   \<and> (\<forall>category. length (historicalValues (butlast periods) (name category)) < 2 \<longrightarrow>
          checkCategory (butlast periods) category = [])
   \<and> (\<forall>a \<in> set (detectAnomalies periods).
          length (historicalValues (butlast periods) (a_metric a)) \<ge> 2)"
proof (intro conjI)
  show "length periods < 2 \<longrightarrow> detectTrends periods = []"
    by (simp add: detectTrends_def)
  show "length periods < 3 \<longrightarrow> detectAnomalies periods = []"
    by (simp add: detectAnomalies_def)
  show "\<forall>category. length (historicalValues (butlast periods) (name category)) < 2 \<longrightarrow>
          checkCategory (butlast periods) category = []"
    by (simp add: checkCategory_few)
  show "\<forall>a \<in> set (detectAnomalies periods).
          length (historicalValues (butlast periods) (a_metric a)) \<ge> 2"
  proof
    fix a
    assume "a \<in> set (detectAnomalies periods)"
    then obtain category where "a \<in> set (checkCategory (butlast periods) category)"
      by (auto simp: detectAnomalies_def Let_def split: if_splits)
    then show "length (historicalValues (butlast periods) (a_metric a)) \<ge> 2"
      using checkCategory_member by fastforce
  qed
qed

lemma hv_rent: "historicalValues [quietPeriod, quietPeriod] ''Rent'' = [1000, 1000]"
  by (simp add: historicalValues_def quietPeriod_def zeroStatement_def emptyPeriod_def List.map_filter_simps)

lemma hv_travel: "historicalValues [quietPeriod, quietPeriod] ''Travel'' = []"
  by (simp add: historicalValues_def quietPeriod_def zeroStatement_def emptyPeriod_def List.map_filter_simps)

lemma check_rent: "checkCategory [quietPeriod, quietPeriod] \<lparr> name = ''Rent'', amount = 1700 \<rparr> =
   [ \<lparr> a_metric = ''Rent'', a_value = 1700, a_expectedMin = 1000, a_expectedMax = 1000, a_severity = High \<rparr> ]"
  by (simp add: checkCategory_def hv_rent Let_def mathRound_def deviationSeverity_def)

lemma anomalies_example:
  "detectAnomalies [quietPeriod, quietPeriod, busyPeriod] =
     [ \<lparr> a_metric = ''Rent'', a_value = 1700, a_expectedMin = 1000, a_expectedMax = 1000, a_severity = High \<rparr> ]"
  by (simp add: detectAnomalies_def busyPeriod_def zeroStatement_def emptyPeriod_def check_rent
      checkCategory_few hv_travel)

theorem detectors_need_enough_periods_witness:
  "length [quietPeriod] < 2 \<and> detectTrends [quietPeriod] = []
   \<and> length [quietPeriod, busyPeriod] < 3 \<and> detectAnomalies [quietPeriod, busyPeriod] = []
   \<and> length (historicalValues (butlast [quietPeriod, quietPeriod, busyPeriod]) ''Travel'') < 2
   \<and> checkCategory (butlast [quietPeriod, quietPeriod, busyPeriod]) \<lparr> name = ''Travel'', amount = 50 \<rparr> = []
   \<and> map a_metric (detectAnomalies [quietPeriod, quietPeriod, busyPeriod]) = [''Rent'']
   \<and> length (historicalValues (butlast [quietPeriod, quietPeriod, busyPeriod]) ''Rent'') \<ge> 2"
proof -
  have l1: "length [quietPeriod] < 2" by simp
  with detectors_need_enough_periods [of "[quietPeriod]"] have t: "detectTrends [quietPeriod] = []" by blast
  have l2: "length [quietPeriod, busyPeriod] < 3" by simp
  with detectors_need_enough_periods [of "[quietPeriod, busyPeriod]"] have a: "detectAnomalies [quietPeriod, busyPeriod] = []"
    by blast
  note inst = detectors_need_enough_periods [of "[quietPeriod, quietPeriod, busyPeriod]"]
  have few: "length (historicalValues (butlast [quietPeriod, quietPeriod, busyPeriod])
      (name \<lparr> name = ''Travel'', amount = 50 \<rparr>)) < 2"
    by (simp add: hv_travel)
  with inst have skip:
    "checkCategory (butlast [quietPeriod, quietPeriod, busyPeriod]) \<lparr> name = ''Travel'', amount = 50 \<rparr> = []"
    by blast
  have mem: "\<lparr> a_metric = ''Rent'', a_value = 1700, a_expectedMin = 1000, a_expectedMax = 1000,
      a_severity = High \<rparr> \<in> set (detectAnomalies [quietPeriod, quietPeriod, busyPeriod])"
    by (simp add: anomalies_example)
  with inst have "length (historicalValues (butlast [quietPeriod, quietPeriod, busyPeriod])
      (a_metric \<lparr> a_metric = ''Rent'', a_value = 1700, a_expectedMin = 1000, a_expectedMax = 1000,
      a_severity = High \<rparr>)) \<ge> 2"
    by blast
  then have enough: "length (historicalValues (butlast [quietPeriod, quietPeriod, busyPeriod]) ''Rent'') \<ge> 2"
    by simp
  from few have few': "length (historicalValues (butlast [quietPeriod, quietPeriod, busyPeriod]) ''Travel'') < 2"
    by simp
  have names: "map a_metric (detectAnomalies [quietPeriod, quietPeriod, busyPeriod]) = [''Rent'']"
    by (simp add: anomalies_example)
  show ?thesis
    by (intro conjI) (rule l1 t l2 a few' skip names enough)+
qed

section \<open>Parser: derived gross profit and category order\<close>

lemma decimalNumeral_500: "decimalNumeral ''500'' = 500"
  by (simp add: decimalNumeral_def unsignedDecimal_def isDigit_def digitsValue_def)

lemma decimalNumeral_0: "decimalNumeral ''0'' = 0"
  by (simp add: decimalNumeral_def unsignedDecimal_def isDigit_def digitsValue_def)

lemma decimalNumeral_examples: "decimalNumeral ''1000'' = 1000" "decimalNumeral ''400'' = 400" "decimalNumeral ''200'' = 200" "decimalNumeral ''300'' = 300"
  "decimalNumeral ''-12.50'' = - 12.5"
  by (simp_all add: decimalNumeral_def unsignedDecimal_def isDigit_def digitsValue_def)

lemma pnlRow_keeps:
  "group row \<noteq> Some ''GrossProfit'' \<Longrightarrow> grossProfit (pnlRow pf row acc) = grossProfit acc"
  by (cases "group row") (simp_all add: pnlRow_def Let_def)

lemma monthlyRow_keeps:
  "group row \<noteq> Some ''GrossProfit'' \<Longrightarrow> grossProfit (monthlyRow pf dataIdx row acc) = grossProfit acc"
  by (cases "group row") (simp_all add: monthlyRow_def Let_def)

lemma fold_pnlRow_keeps:
  "\<not> list_ex (\<lambda>row. group row = Some ''GrossProfit'') rows \<Longrightarrow>
   grossProfit (fold (pnlRow pf) rows acc) = grossProfit acc"
  by (induction rows arbitrary: acc) (simp_all add: pnlRow_keeps)

lemma fold_monthlyRow_keeps:
  "\<not> list_ex (\<lambda>row. group row = Some ''GrossProfit'') rows \<Longrightarrow>
   grossProfit (fold (monthlyRow pf dataIdx) rows acc) = grossProfit acc"
  by (induction rows arbitrary: acc) (simp_all add: monthlyRow_keeps)

lemma finishPeriod_fields:
  "totalRevenue (finishPeriod acc) = totalRevenue acc"
  "totalCogs (finishPeriod acc) = totalCogs acc"
  "grossProfit (finishPeriod acc) =
     (if grossProfit acc = 0 \<and> totalRevenue acc > 0 then totalRevenue acc - totalCogs acc
      else grossProfit acc)"
  "expenseCategories (finishPeriod acc) =
     sortBy (\<lambda>a b. \<bar>amount b\<bar> - \<bar>amount a\<bar>) (expenseCategories acc)"
  by (simp_all add: finishPeriod_def)

lemma finishPeriod_sorted:
  "sorted_wrt (\<lambda>a b. \<bar>amount a\<bar> \<ge> \<bar>amount b\<bar>) (expenseCategories (finishPeriod acc))"
proof -
  have "sorted_wrt (\<lambda>a b. \<bar>amount b\<bar> - \<bar>amount a\<bar> \<le> 0)
          (sortBy (\<lambda>a b. \<bar>amount b\<bar> - \<bar>amount a\<bar>) (expenseCategories acc))"
    by (rule sorted_sortBy) auto
  then show ?thesis by (simp add: finishPeriod_fields)
qed

lemma finishPeriod_derived:
  "grossProfit acc = 0 \<Longrightarrow>
   grossProfit (finishPeriod acc) =
     (if totalRevenue (finishPeriod acc) > 0
      then totalRevenue (finishPeriod acc) - totalCogs (finishPeriod acc) else 0)"
  by (simp add: finishPeriod_fields)

lemma cogsOnly_parsed:
  "fold (pnlRow decimalNumeral) (reportRows cogsOnlyReport) (emptyPeriod pd) = (emptyPeriod pd) \<lparr> totalCogs := 500 \<rparr>"
  by (simp add: reportRows_def cogsOnlyReport_def pnlRow_def valueOr_def decimalNumeral_500 Let_def)

lemma cogsOnly_month_parsed:
  "fold (monthlyRow decimalNumeral (Suc 0)) (reportRows cogsOnlyReport) (emptyPeriod pd) =
     (emptyPeriod pd) \<lparr> totalCogs := 500 \<rparr>"
  by (simp add: reportRows_def cogsOnlyReport_def monthlyRow_def valueOr_def decimalNumeral_500 Let_def)

lemma cogsOnly_monthColumns: "monthColumns cogsOnlyReport = [''Jan 2026'']"
  by (simp add: monthColumns_def cogsOnlyReport_def)

text \<open>
  Claim C9: the canonical model derives the gross profit as \<open>totalRevenue - totalCogs\<close>
  whenever the report does not supply it, and the comment in \<open>parseProfitAndLoss\<close> says
  the same: "If grossProfit wasn't explicitly provided, compute it". The code does it only when
  \<open>totalRevenue > 0\<close>. The report of a month with a COGS total of 500 and no Income and
  no GrossProfit row is parsed, by \<open>parseProfitAndLoss\<close> and by \<open>parseMonthlyPnL\<close>, to
  a statement with revenue 0, COGS 500 and gross profit 0, where revenue minus COGS is
  -500.
\<close>

theorem parser_gross_profit_not_derived:
  "\<not> suppliesGrossProfit cogsOnlyReport
   \<and> totalRevenue (parseProfitAndLoss decimalNumeral plainLabel cogsOnlyReport) = 0
   \<and> totalCogs (parseProfitAndLoss decimalNumeral plainLabel cogsOnlyReport) = 500
   \<and> grossProfit (parseProfitAndLoss decimalNumeral plainLabel cogsOnlyReport) = 0
   \<and> map totalRevenue (parseMonthlyPnL decimalNumeral cogsOnlyReport) = [0]
   \<and> map totalCogs (parseMonthlyPnL decimalNumeral cogsOnlyReport) = [500]
   \<and> map grossProfit (parseMonthlyPnL decimalNumeral cogsOnlyReport) = [0]"
proof -
  have none: "\<not> suppliesGrossProfit cogsOnlyReport"
    by (simp add: suppliesGrossProfit_def reportRows_def cogsOnlyReport_def)
  have pnl: "parseProfitAndLoss decimalNumeral plainLabel cogsOnlyReport =
      finishPeriod ((emptyPeriod \<lparr> periodStart = StartPeriod cogsOnlyReport,
                         periodEnd = EndPeriod cogsOnlyReport,
                         label = plainLabel (StartPeriod cogsOnlyReport) (EndPeriod cogsOnlyReport) \<rparr>)
                    \<lparr> totalCogs := 500 \<rparr>)"
    by (simp only: parseProfitAndLoss_def cogsOnly_parsed)
  have month: "parseMonthlyPnL decimalNumeral cogsOnlyReport =
      [ finishPeriod ((emptyPeriod \<lparr> periodStart = ''Jan 2026'', periodEnd = ''Jan 2026'',
                                      label = ''Jan 2026'' \<rparr>) \<lparr> totalCogs := 500 \<rparr>) ]"
    by (simp add: parseMonthlyPnL_def parseMonth_def cogsOnly_monthColumns cogsOnly_month_parsed
        Let_def)
  have fin: "totalRevenue (finishPeriod ((emptyPeriod pd) \<lparr> totalCogs := 500 \<rparr>)) = 0
      \<and> totalCogs (finishPeriod ((emptyPeriod pd) \<lparr> totalCogs := 500 \<rparr>)) = 500
      \<and> grossProfit (finishPeriod ((emptyPeriod pd) \<lparr> totalCogs := 500 \<rparr>)) = 0" for pd
    by (simp add: finishPeriod_def emptyPeriod_def)
  show ?thesis
    using none by (simp add: pnl month fin)
qed

text \<open>
  What the parsers do ensure, for any reading of numerals: a statement parsed from a report
  without a GrossProfit row and with positive revenue has gross profit
  \<open>totalRevenue - totalCogs\<close>, and the expense categories of every parsed statement are
  in descending order of absolute amount.
\<close>

lemma parser_derives_with_revenue_and_sorts:
  "(\<not> suppliesGrossProfit report \<and> totalRevenue (parseProfitAndLoss pf fmt report) > 0 \<longrightarrow>
      grossProfit (parseProfitAndLoss pf fmt report) =
        totalRevenue (parseProfitAndLoss pf fmt report) - totalCogs (parseProfitAndLoss pf fmt report))
   \<and> sorted_wrt (\<lambda>a b. \<bar>amount a\<bar> \<ge> \<bar>amount b\<bar>) (expenseCategories (parseProfitAndLoss pf fmt report))
   \<and> (\<forall>p \<in> set (parseMonthlyPnL pf report).
        (\<not> suppliesGrossProfit report \<and> totalRevenue p > 0 \<longrightarrow>
           grossProfit p = totalRevenue p - totalCogs p)
        \<and> sorted_wrt (\<lambda>a b. \<bar>amount a\<bar> \<ge> \<bar>amount b\<bar>) (expenseCategories p))"
proof (intro conjI ballI impI)
  assume a: "\<not> suppliesGrossProfit report \<and> totalRevenue (parseProfitAndLoss pf fmt report) > 0"
  then have "grossProfit (fold (pnlRow pf) (reportRows report)
          (emptyPeriod \<lparr> periodStart = StartPeriod report,
                         periodEnd = EndPeriod report,
                         label = fmt (StartPeriod report) (EndPeriod report) \<rparr>)) = 0"
    by (simp add: suppliesGrossProfit_def fold_pnlRow_keeps emptyPeriod_def)
  then have "grossProfit (parseProfitAndLoss pf fmt report) =
        (if totalRevenue (parseProfitAndLoss pf fmt report) > 0
         then totalRevenue (parseProfitAndLoss pf fmt report) - totalCogs (parseProfitAndLoss pf fmt report)
         else 0)"
    unfolding parseProfitAndLoss_def by (rule finishPeriod_derived)
  with a show "grossProfit (parseProfitAndLoss pf fmt report) =
        totalRevenue (parseProfitAndLoss pf fmt report) - totalCogs (parseProfitAndLoss pf fmt report)"
    by simp
next
  show "sorted_wrt (\<lambda>a b. \<bar>amount a\<bar> \<ge> \<bar>amount b\<bar>) (expenseCategories (parseProfitAndLoss pf fmt report))"
    unfolding parseProfitAndLoss_def by (rule finishPeriod_sorted)
next
  fix p
  assume "p \<in> set (parseMonthlyPnL pf report)"
  then obtain colIdx where p: "p = parseMonth pf report colIdx"
    by (auto simp: parseMonthlyPnL_def)
  show "sorted_wrt (\<lambda>a b. \<bar>amount a\<bar> \<ge> \<bar>amount b\<bar>) (expenseCategories p)"
    unfolding p parseMonth_def Let_def by (rule finishPeriod_sorted)
  assume a: "\<not> suppliesGrossProfit report \<and> totalRevenue p > 0"
  then have "grossProfit (fold (monthlyRow pf (colIdx + 1)) (reportRows report)
          (emptyPeriod \<lparr> periodStart = monthColumns report ! colIdx,
                         periodEnd = monthColumns report ! colIdx,
                         label = monthColumns report ! colIdx \<rparr>)) = 0"
    by (simp add: suppliesGrossProfit_def fold_monthlyRow_keeps emptyPeriod_def)
  then have "grossProfit p = (if totalRevenue p > 0 then totalRevenue p - totalCogs p else 0)"
    unfolding p parseMonth_def Let_def by (rule finishPeriod_derived)
  with a show "grossProfit p = totalRevenue p - totalCogs p"
    by simp
qed

lemma monthly_rows_pnl:
  "fold (pnlRow decimalNumeral) (reportRows monthlyReport) (emptyPeriod pd) =
     (emptyPeriod pd) \<lparr> totalRevenue := 1000, totalCogs := 400, totalExpenses := 500,
        expenseCategories := [ \<lparr> name = ''Rent'', amount = 200 \<rparr>, \<lparr> name = ''Payroll'', amount = 300 \<rparr> ] \<rparr>"
  by (simp add: reportRows_def monthlyReport_def pnlRow_def expenseRow_def valueOr_def decimalNumeral_examples decimalNumeral_500 Let_def
      emptyPeriod_def)

lemma monthly_rows_month:
  "fold (monthlyRow decimalNumeral (Suc 0)) (reportRows monthlyReport) (emptyPeriod pd) =
     (emptyPeriod pd) \<lparr> totalRevenue := 1000, totalCogs := 400, totalExpenses := 500,
        expenseCategories := [ \<lparr> name = ''Rent'', amount = 200 \<rparr>, \<lparr> name = ''Payroll'', amount = 300 \<rparr> ] \<rparr>"
  by (simp add: reportRows_def monthlyReport_def monthlyRow_def monthlyExpenseRow_def valueOr_def
      decimalNumeral_examples decimalNumeral_500 Let_def emptyPeriod_def)

lemma monthColumns_example: "monthColumns monthlyReport = [''Jan 2026'']"
  by (simp add: monthColumns_def monthlyReport_def)

lemma parsed_totals:
  "totalRevenue (parseProfitAndLoss decimalNumeral plainLabel monthlyReport) = 1000"
  "totalCogs (parseProfitAndLoss decimalNumeral plainLabel monthlyReport) = 400"
  "map name (expenseCategories (parseProfitAndLoss decimalNumeral plainLabel monthlyReport)) = [''Payroll'', ''Rent'']"
  by (simp_all add: parseProfitAndLoss_def monthly_rows_pnl finishPeriod_fields)

lemma parsed_month_totals:
  "totalRevenue (parseMonth decimalNumeral monthlyReport 0) = 1000"
  "totalCogs (parseMonth decimalNumeral monthlyReport 0) = 400"
  by (simp_all add: parseMonth_def Let_def monthly_rows_month finishPeriod_fields)

text \<open>A report with income 1000 and COGS 400: both parsers derive the gross profit 600.\<close>

lemma parser_example:
  "\<not> suppliesGrossProfit monthlyReport
   \<and> grossProfit (parseProfitAndLoss decimalNumeral plainLabel monthlyReport) = 600
   \<and> map name (expenseCategories (parseProfitAndLoss decimalNumeral plainLabel monthlyReport))
       = [''Payroll'', ''Rent'']
   \<and> parseMonth decimalNumeral monthlyReport 0 \<in> set (parseMonthlyPnL decimalNumeral monthlyReport)
   \<and> grossProfit (parseMonth decimalNumeral monthlyReport 0) = 600"
proof -
  note inst = parser_derives_with_revenue_and_sorts [of monthlyReport decimalNumeral plainLabel]
  have none: "\<not> suppliesGrossProfit monthlyReport"
    by (simp add: suppliesGrossProfit_def reportRows_def monthlyReport_def)
  have pos: "totalRevenue (parseProfitAndLoss decimalNumeral plainLabel monthlyReport) > 0"
    by (simp add: parsed_totals)
  from inst none pos have "grossProfit (parseProfitAndLoss decimalNumeral plainLabel monthlyReport) =
        totalRevenue (parseProfitAndLoss decimalNumeral plainLabel monthlyReport)
          - totalCogs (parseProfitAndLoss decimalNumeral plainLabel monthlyReport)"
    by blast
  then have gp: "grossProfit (parseProfitAndLoss decimalNumeral plainLabel monthlyReport) = 600"
    by (simp add: parsed_totals)
  have mem: "parseMonth decimalNumeral monthlyReport 0 \<in> set (parseMonthlyPnL decimalNumeral monthlyReport)"
    by (simp add: parseMonthlyPnL_def monthColumns_example)
  have posm: "totalRevenue (parseMonth decimalNumeral monthlyReport 0) > 0"
    by (simp add: parsed_month_totals)
  from inst none mem posm have "grossProfit (parseMonth decimalNumeral monthlyReport 0) =
        totalRevenue (parseMonth decimalNumeral monthlyReport 0)
          - totalCogs (parseMonth decimalNumeral monthlyReport 0)"
    by blast
  then have gpm: "grossProfit (parseMonth decimalNumeral monthlyReport 0) = 600"
    by (simp add: parsed_month_totals)
  show ?thesis
    by (intro conjI) (rule none gp parsed_totals(3) mem gpm)+
qed

section \<open>An example run of the issue rules\<close>

text \<open>
  A runway of 2 months and two high anomalies: the critical issue comes first, the two
  warnings follow in descending order of their value, against the order of the pushes.
\<close>

lemma slug_ads: "replaceSpaces False (toLowerCase ''Ads'') = ''ads''"
  by code_simp

lemma collect_example:
  "collectIssues [] [shortRunway] [] [rentAnomaly, adsAnomaly] =
     ([ \<lparr> i_id = ''iss-cash-runway'', i_severity = Critical, i_metric = ''cash_runway'',
          i_currentValue = 2, i_threshold = Some 3, i_periodsActive = 1 \<rparr>,
        rentIssue,
        \<lparr> i_id = ''iss-anomaly-ads'', i_severity = Warning, i_metric = ''anomaly_Ads'',
          i_currentValue = 2500, i_threshold = None, i_periodsActive = 1 \<rparr> ],
      {''cash'', ''anomaly-Office Rent'', ''anomaly-Ads''})"
  by (simp add: collectIssues_def cashRunwayRule_def shortRunway_def expenseRevenueRule_def
      marginRule_def anomalyRule_def rentAnomaly_def adsAnomaly_def rentIssue_def slug_rent slug_ads
      Let_def insert_commute)

lemma generateIssues_example:
  "map i_id (generateIssues [] [shortRunway] [] [rentAnomaly, adsAnomaly] None) =
     [''iss-cash-runway'', ''iss-anomaly-ads'', ''iss-anomaly-office-rent'']"
  by (simp add: generateIssues_def collect_example issueCmp_def severityOrder_def rentIssue_def)

end
